theory Spec2Isabelle
  imports Main "HOL-Library.Word" "HOL-Library.Multiset"
begin

section \<open>Data model of \<open>pkg/multicluster/target.go\<close>\<close>

text \<open>
  Go strings are byte strings, as \<^typ>\<open>string\<close> is. A geo code (\<open>v1alpha1.GeoCode\<close>)
  is a string. A label map (\<open>map[string]string\<close>, \<open>labels.Set\<close>) is a partial map;
  the nil map and the empty map read alike and are both \<^term>\<open>Map.empty\<close>.
  Weights (\<open>v1alpha1.Weight\<close>, \<open>int\<close>) are only copied, never computed with, so they
  are integers.
\<close>

type_synonym GeoCode = string
type_synonym labels = "string \<rightharpoonup> string"

definition LabelLBAttributeGeoCode :: string where
  "LabelLBAttributeGeoCode = ''kuadrant.io/lb-attribute-geo-code''"

text \<open>
  A Go run-time panic is a value of its own, apart from the \<open>error\<close> a function returns:
  a function that returns \<open>error\<close> has the result type \<open>panic + (\<dots> \<times> 'e option)\<close>.
\<close>

datatype panic = NilPointerDereference | SliceBoundsOutOfRange | AssignmentToNilMap

text \<open>
  Modelled from the spec: the declarations of the policy types of \<open>api/v1alpha1\<close> are
  missing. The policy has an optional \<open>geo\<close> part that carries \<open>defaultGeo\<close>, and an
  optional \<open>weighted\<close> part that carries \<open>defaultWeight\<close> and an ordered sequence of
  \<open>CustomWeight\<close> entries, each pairing a label selector with a weight. \<open>target.go\<close>
  reads them so: \<open>LoadBalancing.Geo\<close> and \<open>LoadBalancing.Weighted\<close> are compared with
  nil, \<open>Weighted.Custom\<close> is a \<open>[]*v1alpha1.CustomWeight\<close>, and a \<open>CustomWeight\<close> has a
  \<open>Selector\<close> (handed to \<open>metav1.LabelSelectorAsSelector\<close>, hence a pointer) and a
  \<open>Weight\<close>. A pointer is an \<open>option\<close>, \<open>None\<close> being nil. The type of label
  selectors, \<open>'sel\<close>, is left open.
\<close>

record 'sel CustomWeight =
  Selector :: "'sel option"
  Weight :: int

record 'sel LoadBalancingWeighted =
  DefaultWeight :: int
  Custom :: "'sel CustomWeight option list"

record LoadBalancingGeo =
  DefaultGeo :: string

record 'sel LoadBalancingSpec =
  Weighted :: "'sel LoadBalancingWeighted option"
  Geo :: "LoadBalancingGeo option"

text \<open>
  Modelled from the spec: the declaration of \<open>ClusterGateway\<close> is missing; it is "a
  per-cluster discovered endpoint: cluster identifier (name), namespace, name, and a set
  of key/value labels", that is a Gateway with a \<open>ClusterName\<close>, as \<open>t.ClusterName\<close>,
  \<open>t.Namespace\<close>, \<open>t.Name\<close> and \<open>t.GetLabels()\<close> in the code read it. Of a
  \<open>gatewayapiv1.Gateway\<close> the code reads the name, the namespace and the labels.
\<close>

record Gateway =
  Name :: string
  Namespace :: string
  Labels :: labels

record ClusterGateway = Gateway +
  ClusterName :: string

record ClusterGatewayTarget =
  ClusterGateway :: "ClusterGateway option"
  Geo :: "GeoCode option"
  Weight :: "int option"

text \<open>
  The field \<open>ClusterGatewayTargets\<close> is a slice: \<open>None\<close> is the nil slice, which the
  zero value of the struct holds, and \<open>Some []\<close> the empty slice
  \<open>[]ClusterGatewayTarget{}\<close>.
\<close>

record 'sel GatewayTarget =
  Gateway :: "Gateway option"
  ClusterGatewayTargets :: "ClusterGatewayTarget list option"
  LoadBalancing :: "'sel LoadBalancingSpec option"

text \<open>
  A label selector is parsed by \<open>metav1.LabelSelectorAsSelector\<close>, a function of the
  Kubernetes library: it is a parameter \<open>las\<close> of the model, from a selector pointer to
  either an error or the predicate \<open>selector.Matches\<close> on label sets.
\<close>

type_synonym ('sel, 'e) parser = "'sel option \<Rightarrow> 'e + (labels \<Rightarrow> bool)"

section \<open>Operations\<close>

text \<open>
  The constants \<open>v1alpha1.DefaultGeo\<close> and \<open>v1alpha1.DefaultWeight\<close> are declared outside
  the sources at hand: they are the parameters \<open>dg\<close> and \<open>dw\<close>.
\<close>

definition GetDefaultGeo :: "GeoCode \<Rightarrow> 'sel GatewayTarget \<Rightarrow> GeoCode" where
  "GetDefaultGeo dg t =
     (case LoadBalancing t of
        None \<Rightarrow> dg
      | Some lb \<Rightarrow> (case LoadBalancingSpec.Geo lb of
                      None \<Rightarrow> dg
                    | Some g \<Rightarrow> DefaultGeo g))"

definition GetDefaultWeight :: "int \<Rightarrow> 'sel GatewayTarget \<Rightarrow> int" where
  "GetDefaultWeight dw t =
     (case LoadBalancing t of
        None \<Rightarrow> dw
      | Some lb \<Rightarrow> (case Weighted lb of
                      None \<Rightarrow> dw
                    | Some w \<Rightarrow> DefaultWeight w))"

text \<open>\<open>t.GetLabels()\<close> goes through the embedded pointer \<open>*ClusterGateway\<close>.\<close>

definition GetLabels :: "ClusterGatewayTarget \<Rightarrow> panic + labels" where
  "GetLabels t =
     (case ClusterGateway t of
        None \<Rightarrow> Inl NilPointerDereference
      | Some cg \<Rightarrow> Inr (Labels cg))"

definition GetGeo :: "ClusterGatewayTarget \<Rightarrow> panic + GeoCode" where
  "GetGeo t = (case ClusterGatewayTarget.Geo t of
                 None \<Rightarrow> Inl NilPointerDereference
               | Some g \<Rightarrow> Inr g)"

definition GetWeight :: "ClusterGatewayTarget \<Rightarrow> panic + int" where
  "GetWeight t = (case ClusterGatewayTarget.Weight t of
                    None \<Rightarrow> Inl NilPointerDereference
                  | Some w \<Rightarrow> Inr w)"

definition setGeo :: "GeoCode \<Rightarrow> GeoCode \<Rightarrow> ClusterGatewayTarget \<Rightarrow> panic + ClusterGatewayTarget" where
  "setGeo dg defaultGeo t =
     (let geoCode = defaultGeo in
      if geoCode = dg then Inr (t\<lparr>Geo := Some geoCode\<rparr>)
      else (case GetLabels t of
              Inl p \<Rightarrow> Inl p
            | Inr ls \<Rightarrow> (case ls LabelLBAttributeGeoCode of
                           Some gc \<Rightarrow> Inr (t\<lparr>Geo := Some gc\<rparr>)
                         | None \<Rightarrow> Inr (t\<lparr>Geo := Some geoCode\<rparr>))))"

text \<open>
  The loop of \<open>setWeight\<close> over \<open>customWeights\<close>: \<open>Inr (Inl err)\<close> is the early
  \<open>return err\<close>, \<open>Inr (Inr w)\<close> the value of \<open>weight\<close> when the loop is left (by
  \<open>break\<close> or at the end of the slice). An entry of the slice is a pointer; reading
  \<open>cw.Selector\<close> through a nil entry panics.
\<close>

fun setWeight_loop ::
  "('sel, 'e) parser \<Rightarrow> ClusterGatewayTarget \<Rightarrow> int \<Rightarrow> 'sel CustomWeight option list
     \<Rightarrow> panic + ('e + int)" where
  "setWeight_loop las t weight [] = Inr (Inr weight)"
| "setWeight_loop las t weight (cwp # cws) =
     (case cwp of
        None \<Rightarrow> Inl NilPointerDereference
      | Some cw \<Rightarrow>
          (case las (Selector cw) of
             Inl err \<Rightarrow> Inr (Inl err)
           | Inr selector \<Rightarrow>
               (case GetLabels t of
                  Inl p \<Rightarrow> Inl p
                | Inr ls \<Rightarrow>
                    if selector ls then Inr (Inr (CustomWeight.Weight cw))
                    else setWeight_loop las t weight cws)))"

definition setWeight ::
  "('sel, 'e) parser \<Rightarrow> int \<Rightarrow> 'sel CustomWeight option list \<Rightarrow> ClusterGatewayTarget
     \<Rightarrow> panic + (ClusterGatewayTarget \<times> 'e option)" where
  "setWeight las defaultWeight customWeights t =
     (case setWeight_loop las t defaultWeight customWeights of
        Inl p \<Rightarrow> Inl p
      | Inr (Inl err) \<Rightarrow> Inr (t, Some err)
      | Inr (Inr weight) \<Rightarrow> Inr (t\<lparr>Weight := Some weight\<rparr>, None))"

text \<open>
  \<open>cg\<close> is passed by value and the target holds \<open>&cg\<close>, a pointer to that copy. On an
  error the zero value \<open>ClusterGatewayTarget{}\<close> is returned with it.
\<close>

definition NewClusterGatewayTarget ::
  "('sel, 'e) parser \<Rightarrow> GeoCode \<Rightarrow> ClusterGateway \<Rightarrow> GeoCode \<Rightarrow> int
     \<Rightarrow> 'sel CustomWeight option list \<Rightarrow> panic + (ClusterGatewayTarget \<times> 'e option)" where
  "NewClusterGatewayTarget las dg cg defaultGeoCode defaultWeight customWeights =
     (let target = \<lparr>ClusterGateway = Some cg, Geo = None, Weight = None\<rparr> in
      case setGeo dg defaultGeoCode target of
        Inl p \<Rightarrow> Inl p
      | Inr target1 \<Rightarrow>
          (case setWeight las defaultWeight customWeights target1 of
             Inl p \<Rightarrow> Inl p
           | Inr (target2, Some err) \<Rightarrow>
               Inr (\<lparr>ClusterGateway = None, Geo = None, Weight = None\<rparr>, Some err)
           | Inr (target2, None) \<Rightarrow> Inr (target2, None)))"

text \<open>
  The loop of \<open>setClusterGatewayTargets\<close> over \<open>clusterGateways\<close>, with the local
  \<open>cgTargets\<close> as accumulator: \<open>Inr (Inl err)\<close> is the early \<open>return err\<close>,
  \<open>Inr (Inr cgTargets)\<close> the slice when the loop ends. \<open>customWeightsOf t\<close> is the
  value of the local \<open>customWeights\<close>: nil unless the policy has a weighted part, whose
  \<open>Custom\<close> it is then.
\<close>

definition customWeightsOf :: "'sel GatewayTarget \<Rightarrow> 'sel CustomWeight option list" where
  "customWeightsOf t =
     (case LoadBalancing t of
        None \<Rightarrow> []
      | Some lb \<Rightarrow> (case Weighted lb of
                      None \<Rightarrow> []
                    | Some w \<Rightarrow> Custom w))"

fun setClusterGatewayTargets_loop ::
  "('sel, 'e) parser \<Rightarrow> GeoCode \<Rightarrow> int \<Rightarrow> 'sel GatewayTarget \<Rightarrow> ClusterGatewayTarget list
     \<Rightarrow> ClusterGateway list \<Rightarrow> panic + ('e + ClusterGatewayTarget list)" where
  "setClusterGatewayTargets_loop las dg dw t cgTargets [] = Inr (Inr cgTargets)"
| "setClusterGatewayTargets_loop las dg dw t cgTargets (cg # cgs) =
     (let customWeights = customWeightsOf t in
      case NewClusterGatewayTarget las dg cg (GetDefaultGeo dg t) (GetDefaultWeight dw t)
             customWeights of
        Inl p \<Rightarrow> Inl p
      | Inr (cgt, Some err) \<Rightarrow> Inr (Inl err)
      | Inr (cgt, None) \<Rightarrow>
          setClusterGatewayTargets_loop las dg dw t (cgTargets @ [cgt]) cgs)"

definition setClusterGatewayTargets ::
  "('sel, 'e) parser \<Rightarrow> GeoCode \<Rightarrow> int \<Rightarrow> ClusterGateway list \<Rightarrow> 'sel GatewayTarget
     \<Rightarrow> panic + ('sel GatewayTarget \<times> 'e option)" where
  "setClusterGatewayTargets las dg dw clusterGateways t =
     (case setClusterGatewayTargets_loop las dg dw t [] clusterGateways of
        Inl p \<Rightarrow> Inl p
      | Inr (Inl err) \<Rightarrow> Inr (t, Some err)
      | Inr (Inr cgTargets) \<Rightarrow> Inr (t\<lparr>ClusterGatewayTargets := Some cgTargets\<rparr>, None))"

text \<open>
  \<open>NewGatewayTarget\<close> returns the pointer \<open>mcg\<close> together with the error: the first
  component is that pointer, \<open>None\<close> being nil.
\<close>

definition NewGatewayTarget ::
  "('sel, 'e) parser \<Rightarrow> GeoCode \<Rightarrow> int \<Rightarrow> Gateway option \<Rightarrow> ClusterGateway list
     \<Rightarrow> 'sel LoadBalancingSpec option \<Rightarrow> panic + ('sel GatewayTarget option \<times> 'e option)" where
  "NewGatewayTarget las dg dw gateway clusterGateways loadBalancing =
     (let mcg = \<lparr>Gateway = gateway, ClusterGatewayTargets = None,
                 LoadBalancing = loadBalancing\<rparr> in
      case setClusterGatewayTargets las dg dw clusterGateways mcg of
        Inl p \<Rightarrow> Inl p
      | Inr (mcg1, err) \<Rightarrow> Inr (Some mcg1, err))"

text \<open>
  The loop of \<open>GroupTargetsByGeo\<close>, with the map \<open>geoTargets\<close> as accumulator. A key
  that the map does not hold reads as the nil slice, and \<open>append\<close> to it gives the
  one-element slice. \<open>target.GetGeo()\<close> dereferences \<open>t.Geo\<close>.
\<close>

fun GroupTargetsByGeo_loop ::
  "(GeoCode \<rightharpoonup> ClusterGatewayTarget list) \<Rightarrow> ClusterGatewayTarget list
     \<Rightarrow> panic + (GeoCode \<rightharpoonup> ClusterGatewayTarget list)" where
  "GroupTargetsByGeo_loop geoTargets [] = Inr geoTargets"
| "GroupTargetsByGeo_loop geoTargets (target # ts) =
     (case GetGeo target of
        Inl p \<Rightarrow> Inl p
      | Inr g \<Rightarrow>
          GroupTargetsByGeo_loop
            (geoTargets(g \<mapsto> (case geoTargets g of None \<Rightarrow> [] | Some b \<Rightarrow> b) @ [target]))
            ts)"

definition GroupTargetsByGeo ::
  "'sel GatewayTarget \<Rightarrow> panic + (GeoCode \<rightharpoonup> ClusterGatewayTarget list)" where
  "GroupTargetsByGeo t =
     GroupTargetsByGeo_loop Map.empty
       (case ClusterGatewayTargets t of None \<Rightarrow> [] | Some ts \<Rightarrow> ts)"

text \<open>
  \<open>sha256.Sum224\<close>, \<open>base36.EncodeBytes\<close> and \<open>strings.ToLower\<close> are library functions:
  they are the parameters \<open>sum224\<close>, \<open>encodeBytes\<close> and \<open>toLower\<close>. \<open>[]byte(s)\<close> is the
  byte sequence of the string. The slice expression \<open>x[:l]\<close> panics unless
  \<open>0 \<le> l \<le> len(x)\<close>.
\<close>

definition ToBase36Hash ::
  "(8 word list \<Rightarrow> 8 word list) \<Rightarrow> (8 word list \<Rightarrow> string) \<Rightarrow> (string \<Rightarrow> string)
     \<Rightarrow> string \<Rightarrow> string" where
  "ToBase36Hash sum224 encodeBytes toLower s =
     (let hash = sum224 (map of_char s) in toLower (encodeBytes hash))"

definition ToBase36HashLen ::
  "(8 word list \<Rightarrow> 8 word list) \<Rightarrow> (8 word list \<Rightarrow> string) \<Rightarrow> (string \<Rightarrow> string)
     \<Rightarrow> string \<Rightarrow> int \<Rightarrow> panic + string" where
  "ToBase36HashLen sum224 encodeBytes toLower s l =
     (let h = ToBase36Hash sum224 encodeBytes toLower s in
      if 0 \<le> l \<and> l \<le> int (length h) then Inr (take (nat l) h)
      else Inl SliceBoundsOutOfRange)"

text \<open>
  \<open>GetName\<close> and \<open>GetShortCode\<close> of a \<open>ClusterGatewayTarget\<close> read \<open>ClusterName\<close>,
  \<open>Namespace\<close> and \<open>Name\<close> through the embedded pointer. \<open>fmt.Sprintf("%s-%s", a, b)\<close>
  is \<open>a @ ''-'' @ b\<close>.
\<close>

definition GetName :: "ClusterGatewayTarget \<Rightarrow> panic + string" where
  "GetName t =
     (case ClusterGateway t of
        None \<Rightarrow> Inl NilPointerDereference
      | Some cg \<Rightarrow> Inr (ClusterName cg))"

definition GetShortCode ::
  "(8 word list \<Rightarrow> 8 word list) \<Rightarrow> (8 word list \<Rightarrow> string) \<Rightarrow> (string \<Rightarrow> string)
     \<Rightarrow> ClusterGatewayTarget \<Rightarrow> panic + string" where
  "GetShortCode sum224 encodeBytes toLower t =
     (case ClusterGateway t of
        None \<Rightarrow> Inl NilPointerDereference
      | Some cg \<Rightarrow>
          (case ToBase36HashLen sum224 encodeBytes toLower (Namespace cg @ ''-'' @ Name cg) 7 of
             Inl p \<Rightarrow> Inl p
           | Inr code \<Rightarrow> Inr (ClusterName cg @ ''-'' @ code)))"

text \<open>
  The call of \<open>NewClusterGatewayTarget\<close> in the body of the loop of
  \<open>setClusterGatewayTargets\<close>.
\<close>

abbreviation (input) newCGT where
  "newCGT las dg dw t cg \<equiv>
     NewClusterGatewayTarget las dg cg (GetDefaultGeo dg t) (GetDefaultWeight dw t)
       (customWeightsOf t)"

text \<open>
  The loop of \<open>setWeight\<close> goes past an entry \<open>c\<close> of \<open>customWeights\<close>, for a cluster
  gateway with the labels \<open>ls\<close>, when the entry is not nil, its selector is parsed and
  the selector does not match \<open>ls\<close>.
\<close>

abbreviation (input) skipped ::
  "('sel, 'e) parser \<Rightarrow> labels \<Rightarrow> 'sel CustomWeight option \<Rightarrow> bool" where
  "skipped las ls c \<equiv>
     (\<exists>cw selector. c = Some cw \<and> las (Selector cw) = Inr selector \<and> \<not> selector ls)"

section \<open>Sample inputs\<close>

text \<open>
  An instance of the parser, for evaluating the operations on concrete inputs: selectors
  that have only \<open>matchLabels\<close>, as a list of pairs. The nil selector selects nothing,
  the empty selector everything, a pair \<open>(k, v)\<close> requires the label \<open>k\<close> with the value
  \<open>v\<close>, and an empty label key is rejected. The cluster gateways and the policy are
  those of the examples of the specification.
\<close>

definition matchLabelsAsSelector :: "((string \<times> string) list, string) parser" where
  "matchLabelsAsSelector ps =
     (case ps of
        None \<Rightarrow> Inr (\<lambda>ls. False)
      | Some kvs \<Rightarrow>
          if list_ex (\<lambda>kv. fst kv = []) kvs then Inl ''invalid label key''
          else Inr (\<lambda>ls. list_all (\<lambda>kv. ls (fst kv) = Some (snd kv)) kvs))"

definition exampleA :: ClusterGateway where
  "exampleA = \<lparr>Name = ''gw'', Namespace = ''ns'',
               Labels = [LabelLBAttributeGeoCode \<mapsto> ''US'', ''tier'' \<mapsto> ''premium''],
               ClusterName = ''cluster-a''\<rparr>"

definition exampleB :: ClusterGateway where
  "exampleB = \<lparr>Name = ''gw'', Namespace = ''ns'', Labels = Map.empty,
               ClusterName = ''cluster-b''\<rparr>"

definition examplePolicy :: "(string \<times> string) list LoadBalancingSpec" where
  "examplePolicy =
     \<lparr>Weighted = Some \<lparr>DefaultWeight = 100,
                        Custom = [Some \<lparr>Selector = Some [(''tier'', ''premium'')],
                                        Weight = 200\<rparr>]\<rparr>,
      Geo = Some \<lparr>DefaultGeo = ''EU''\<rparr>\<rparr>"

definition exampleBadPolicy :: "(string \<times> string) list LoadBalancingSpec" where
  "exampleBadPolicy =
     \<lparr>Weighted = Some \<lparr>DefaultWeight = 100,
                        Custom = [Some \<lparr>Selector = Some [(''tier'', ''premium'')],
                                        Weight = 200\<rparr>,
                                  Some \<lparr>Selector = Some [('''', ''x'')], Weight = 1\<rparr>]\<rparr>,
      Geo = None\<rparr>"

definition exampleC :: ClusterGateway where
  "exampleC = \<lparr>Name = ''gw'', Namespace = ''ns'',
               Labels = [LabelLBAttributeGeoCode \<mapsto> ''US''],
               ClusterName = ''cluster-c''\<rparr>"

text \<open>
  Stand-ins for the three library functions, for evaluating the short codes on concrete
  inputs: as digest the first 28 bytes of the input padded with zeros, two characters
  for every byte, and the lowercasing of the letter Z.
\<close>

definition sampleSum224 :: "8 word list \<Rightarrow> 8 word list" where
  "sampleSum224 bs =
     take 28 (bs @ [0, 0, 0, 0, 0, 0, 0, 0, 0, 0, 0, 0, 0, 0,
                    0, 0, 0, 0, 0, 0, 0, 0, 0, 0, 0, 0, 0, 0])"

definition sampleEncodeBytes :: "8 word list \<Rightarrow> string" where
  "sampleEncodeBytes bs = concat (map (\<lambda>b. ''0Z'') bs)"

definition sampleToLower :: "string \<Rightarrow> string" where
  "sampleToLower s = map (\<lambda>c. if c = CHR ''Z'' then CHR ''z'' else c) s"

section \<open>The construction on a store\<close>

text \<open>
  What is shared between the caller's records and the targets is decided by Go's
  reference types, so it is stated on a store. A map value (\<open>map[string]string\<close>) is a
  reference: a struct holds the address of the label map, and copying the struct copies
  the address. A pointer to a struct (\<open>&cg\<close>) is the address of a cell that holds the
  struct. A slice refers to the cells of its backing array. The store has the label
  maps, the struct cells, and the next address to allocate.
\<close>

type_synonym addr = nat

text \<open>
  Modelled from the spec: the declaration of \<open>ClusterGateway\<close> is missing; its fields are
  those of the record \<open>ClusterGateway\<close> above, with the labels held by reference, as the
  \<open>map[string]string\<close> that \<open>t.GetLabels()\<close> returns.
\<close>

record ClusterGateway_st =
  Name_st :: string
  Namespace_st :: string
  Labels_st :: "addr option"
  ClusterName_st :: string

record store =
  labelMaps :: "addr \<rightharpoonup> labels"
  structs :: "addr \<rightharpoonup> ClusterGateway_st"
  nextAddr :: addr

record ClusterGatewayTarget_st =
  ClusterGateway_st :: "addr option"
  Geo_st :: "GeoCode option"
  Weight_st :: "int option"

text \<open>
  Reading through the store: the label map a struct refers to (the nil map reads as the
  empty map), the struct as the value the operations above work on, and a target with
  the struct its pointer refers to.
\<close>

definition readLabels :: "store \<Rightarrow> addr option \<Rightarrow> labels" where
  "readLabels s r =
     (case r of
        None \<Rightarrow> Map.empty
      | Some a \<Rightarrow> (case labelMaps s a of None \<Rightarrow> Map.empty | Some m \<Rightarrow> m))"

definition load :: "store \<Rightarrow> ClusterGateway_st \<Rightarrow> ClusterGateway" where
  "load s cg = \<lparr>Name = Name_st cg, Namespace = Namespace_st cg,
                Labels = readLabels s (Labels_st cg), ClusterName = ClusterName_st cg\<rparr>"

definition view :: "store \<Rightarrow> ClusterGatewayTarget_st \<Rightarrow> ClusterGatewayTarget" where
  "view s t =
     \<lparr>ClusterGateway =
        (case ClusterGateway_st t of
           None \<Rightarrow> None
         | Some p \<Rightarrow> map_option (load s) (structs s p)),
      Geo = Geo_st t, Weight = Weight_st t\<rparr>"

text \<open>
  \<open>NewClusterGatewayTarget\<close> on the store: the parameter \<open>cg\<close> is a copy of the
  caller's struct, and \<open>&cg\<close> makes it a cell of its own, at a fresh address. \<open>setGeo\<close>
  and \<open>setWeight\<close> read the labels through that pointer and assign \<open>t.Geo\<close> and
  \<open>t.Weight\<close>; nothing is written to a label map or to another cell.
\<close>

definition NewClusterGatewayTarget_st ::
  "('sel, 'e) parser \<Rightarrow> GeoCode \<Rightarrow> ClusterGateway_st \<Rightarrow> GeoCode \<Rightarrow> int
     \<Rightarrow> 'sel CustomWeight option list \<Rightarrow> store
     \<Rightarrow> panic + (store \<times> ClusterGatewayTarget_st \<times> 'e option)" where
  "NewClusterGatewayTarget_st las dg cg defaultGeoCode defaultWeight customWeights s =
     (let p = nextAddr s;
          s1 = s\<lparr>structs := (structs s)(p \<mapsto> cg), nextAddr := Suc p\<rparr>;
          target = \<lparr>ClusterGateway_st = Some p, Geo_st = None, Weight_st = None\<rparr> in
      case setGeo dg defaultGeoCode (view s1 target) of
        Inl e \<Rightarrow> Inl e
      | Inr target1 \<Rightarrow>
          (case setWeight las defaultWeight customWeights target1 of
             Inl e \<Rightarrow> Inl e
           | Inr (target2, Some err) \<Rightarrow>
               Inr (s1, \<lparr>ClusterGateway_st = None, Geo_st = None, Weight_st = None\<rparr>,
                    Some err)
           | Inr (target2, None) \<Rightarrow>
               Inr (s1, target\<lparr>Geo_st := ClusterGatewayTarget.Geo target2,
                               Weight_st := ClusterGatewayTarget.Weight target2\<rparr>, None)))"

text \<open>
  The loop of \<open>setClusterGatewayTargets\<close> on the store. The slice \<open>clusterGateways\<close> is
  the list of the addresses of its elements; \<open>range\<close> copies each element into \<open>cg\<close>.
  \<open>NewGatewayTarget_st\<close> returns the store, the field \<open>ClusterGatewayTargets\<close> of the
  \<open>GatewayTarget\<close> it returns, and the error.
\<close>

fun setClusterGatewayTargets_loop_st ::
  "('sel, 'e) parser \<Rightarrow> GeoCode \<Rightarrow> int \<Rightarrow> 'sel GatewayTarget
     \<Rightarrow> ClusterGatewayTarget_st list \<Rightarrow> addr list \<Rightarrow> store
     \<Rightarrow> panic + (store \<times> ('e + ClusterGatewayTarget_st list))" where
  "setClusterGatewayTargets_loop_st las dg dw t cgTargets [] s = Inr (s, Inr cgTargets)"
| "setClusterGatewayTargets_loop_st las dg dw t cgTargets (a # as) s =
     (case structs s a of
        None \<Rightarrow> Inl NilPointerDereference
      | Some cg \<Rightarrow>
          (case NewClusterGatewayTarget_st las dg cg (GetDefaultGeo dg t)
                  (GetDefaultWeight dw t) (customWeightsOf t) s of
             Inl e \<Rightarrow> Inl e
           | Inr (s1, cgt, Some err) \<Rightarrow> Inr (s1, Inl err)
           | Inr (s1, cgt, None) \<Rightarrow>
               setClusterGatewayTargets_loop_st las dg dw t (cgTargets @ [cgt]) as s1))"

definition NewGatewayTarget_st ::
  "('sel, 'e) parser \<Rightarrow> GeoCode \<Rightarrow> int \<Rightarrow> Gateway option \<Rightarrow> addr list
     \<Rightarrow> 'sel LoadBalancingSpec option \<Rightarrow> store
     \<Rightarrow> panic + (store \<times> ClusterGatewayTarget_st list option \<times> 'e option)" where
  "NewGatewayTarget_st las dg dw gateway clusterGateways loadBalancing s =
     (let mcg = \<lparr>Gateway = gateway, ClusterGatewayTargets = None,
                 LoadBalancing = loadBalancing\<rparr> in
      case setClusterGatewayTargets_loop_st las dg dw mcg [] clusterGateways s of
        Inl e \<Rightarrow> Inl e
      | Inr (s1, Inl err) \<Rightarrow> Inr (s1, None, Some err)
      | Inr (s1, Inr cgTargets) \<Rightarrow> Inr (s1, Some cgTargets, None))"

text \<open>
  Two assignments a holder of a target can make later: \<open>t.ClusterName = x\<close>, to a
  field of the struct the target points to, and \<open>t.GetLabels()[k] = v\<close>, to an entry of
  its label map (an assignment to an entry of the nil map panics).
\<close>

definition assignClusterName ::
  "ClusterGatewayTarget_st \<Rightarrow> string \<Rightarrow> store \<Rightarrow> panic + store" where
  "assignClusterName t x s =
     (case ClusterGateway_st t of
        None \<Rightarrow> Inl NilPointerDereference
      | Some p \<Rightarrow>
          (case structs s p of
             None \<Rightarrow> Inl NilPointerDereference
           | Some cg \<Rightarrow> Inr (s\<lparr>structs := (structs s)(p \<mapsto> cg\<lparr>ClusterName_st := x\<rparr>)\<rparr>)))"

definition assignLabel ::
  "ClusterGatewayTarget_st \<Rightarrow> string \<Rightarrow> string \<Rightarrow> store \<Rightarrow> panic + store" where
  "assignLabel t k v s =
     (case ClusterGateway_st t of
        None \<Rightarrow> Inl NilPointerDereference
      | Some p \<Rightarrow>
          (case structs s p of
             None \<Rightarrow> Inl NilPointerDereference
           | Some cg \<Rightarrow>
               (case Labels_st cg of
                  None \<Rightarrow> Inl AssignmentToNilMap
                | Some a \<Rightarrow>
                    Inr (s\<lparr>labelMaps :=
                              (labelMaps s)(a \<mapsto> (readLabels s (Some a))(k \<mapsto> v))\<rparr>))))"

text \<open>
  A store in which the caller holds the cluster gateway \<open>exampleA\<close> as the only element
  of a slice: the store before the construction, after it, and after the holder of the
  target has assigned a label.
\<close>

definition exampleA_st :: ClusterGateway_st where
  "exampleA_st = \<lparr>Name_st = ''gw'', Namespace_st = ''ns'', Labels_st = Some 0,
                  ClusterName_st = ''cluster-a''\<rparr>"

definition exampleStore :: store where
  "exampleStore =
     \<lparr>labelMaps = [0 \<mapsto> [LabelLBAttributeGeoCode \<mapsto> ''US'', ''tier'' \<mapsto> ''premium'']],
      structs = [0 \<mapsto> exampleA_st],
      nextAddr = 1\<rparr>"

definition exampleStore1 :: store where
  "exampleStore1 =
     exampleStore\<lparr>structs := (structs exampleStore)(1 \<mapsto> exampleA_st), nextAddr := 2\<rparr>"

definition exampleStore2 :: store where
  "exampleStore2 =
     exampleStore1\<lparr>labelMaps :=
       (labelMaps exampleStore1)
         (0 \<mapsto> (readLabels exampleStore1 (Some 0))(''tier'' \<mapsto> ''basic''))\<rparr>"

definition exampleTarget_st :: ClusterGatewayTarget_st where
  "exampleTarget_st =
     \<lparr>ClusterGateway_st = Some 1, Geo_st = Some ''default'', Weight_st = Some 120\<rparr>"

section \<open>Lemmas on the construction of targets\<close>

lemmas example_defs = matchLabelsAsSelector_def exampleA_def exampleB_def examplePolicy_def
  LabelLBAttributeGeoCode_def

lemmas op_defs = NewGatewayTarget_def setClusterGatewayTargets_def NewClusterGatewayTarget_def
  setGeo_def setWeight_def GetLabels_def GetGeo_def GetWeight_def GetDefaultGeo_def
  GetDefaultWeight_def customWeightsOf_def Let_def

lemma setWeight_loop_cong:
  "ClusterGateway t = ClusterGateway t' \<Longrightarrow>
   setWeight_loop las t w cws = setWeight_loop las t' w cws"
  by (induction cws) (simp_all add: GetLabels_def split: option.splits sum.splits)

lemma setGeo_of_cg:
  "setGeo dg g \<lparr>ClusterGateway = Some cg, Geo = None, Weight = None\<rparr> =
     Inr \<lparr>ClusterGateway = Some cg,
          Geo = Some (if g = dg then dg
                      else case Labels cg LabelLBAttributeGeoCode of None \<Rightarrow> g | Some gc \<Rightarrow> gc),
          Weight = None\<rparr>"
  by (simp add: setGeo_def GetLabels_def split: option.splits)

lemma NewClusterGatewayTarget_eq:
  "NewClusterGatewayTarget las dg cg g w cws =
     (case setWeight_loop las \<lparr>ClusterGateway = Some cg, Geo = None, Weight = None\<rparr> w cws of
        Inl p \<Rightarrow> Inl p
      | Inr (Inl err) \<Rightarrow> Inr (\<lparr>ClusterGateway = None, Geo = None, Weight = None\<rparr>, Some err)
      | Inr (Inr w') \<Rightarrow>
          Inr (\<lparr>ClusterGateway = Some cg,
                Geo = Some (if g = dg then dg
                            else case Labels cg LabelLBAttributeGeoCode of
                                   None \<Rightarrow> g | Some gc \<Rightarrow> gc),
                Weight = Some w'\<rparr>, None))"
proof -
  let ?t0 = "\<lparr>ClusterGateway = Some cg, Geo = None, Weight = None\<rparr>"
  let ?t1 = "\<lparr>ClusterGateway = Some cg,
          Geo = Some (if g = dg then dg
                      else case Labels cg LabelLBAttributeGeoCode of None \<Rightarrow> g | Some gc \<Rightarrow> gc),
          Weight = None\<rparr>"
  have loop: "setWeight_loop las ?t1 w cws = setWeight_loop las ?t0 w cws"
    by (rule setWeight_loop_cong) simp
  show ?thesis
    unfolding NewClusterGatewayTarget_def Let_def setGeo_of_cg
    by (simp add: setWeight_def loop split: sum.splits)
qed

lemma NewClusterGatewayTarget_ok_cg:
  assumes "NewClusterGatewayTarget las dg cg g w cws = Inr (t, None)"
  shows "ClusterGateway t = Some cg"
  using assms unfolding NewClusterGatewayTarget_eq by (auto split: sum.splits)

lemma loop_ok:
  "setClusterGatewayTargets_loop las dg dw t acc cgs = Inr (Inr ts) \<Longrightarrow>
   \<exists>new. ts = acc @ new \<and>
     list_all2 (\<lambda>cg ct. newCGT las dg dw t cg = Inr (ct, None)) cgs new"
proof (induction cgs arbitrary: acc)
  case Nil
  then show ?case by simp
next
  case (Cons cg cgs)
  from Cons.prems obtain ct where
    ct: "newCGT las dg dw t cg = Inr (ct, None)" and
    rest: "setClusterGatewayTargets_loop las dg dw t (acc @ [ct]) cgs = Inr (Inr ts)"
    by (auto split: sum.splits option.splits prod.splits)
  from Cons.IH [OF rest] obtain new where
    "ts = (acc @ [ct]) @ new"
    "list_all2 (\<lambda>cg ct. newCGT las dg dw t cg = Inr (ct, None)) cgs new"
    by blast
  with ct have "ts = acc @ (ct # new) \<and>
     list_all2 (\<lambda>cg ct. newCGT las dg dw t cg = Inr (ct, None)) (cg # cgs) (ct # new)"
    by simp
  then show ?case by blast
qed

lemma loop_ok_conv:
  "list_all2 (\<lambda>cg ct. newCGT las dg dw t cg = Inr (ct, None)) cgs new \<Longrightarrow>
   setClusterGatewayTargets_loop las dg dw t acc cgs = Inr (Inr (acc @ new))"
proof (induction cgs arbitrary: acc new)
  case Nil
  then show ?case by simp
next
  case (Cons cg cgs)
  then obtain ct new' where new: "new = ct # new'"
    and ct: "newCGT las dg dw t cg = Inr (ct, None)"
    and rest: "list_all2 (\<lambda>cg ct. newCGT las dg dw t cg = Inr (ct, None)) cgs new'"
    by (auto simp: list_all2_Cons1)
  from Cons.IH [OF rest, of "acc @ [ct]"] ct new show ?case by simp
qed

lemma loop_err:
  "setClusterGatewayTargets_loop las dg dw t acc cgs = Inr (Inl e) \<Longrightarrow>
   \<exists>pre cg post z. cgs = pre @ cg # post \<and>
     (\<forall>c\<in>set pre. \<exists>ct. newCGT las dg dw t c = Inr (ct, None)) \<and>
     newCGT las dg dw t cg = Inr (z, Some e)"
proof (induction cgs arbitrary: acc)
  case Nil
  then show ?case by simp
next
  case (Cons cg cgs)
  show ?case
  proof (cases "newCGT las dg dw t cg")
    case (Inl p)
    with Cons.prems show ?thesis by simp
  next
    case (Inr r)
    obtain ct err where r: "r = (ct, err)" by (cases r)
    show ?thesis
    proof (cases err)
      case None
      with Inr r Cons.prems have
        "setClusterGatewayTargets_loop las dg dw t (acc @ [ct]) cgs = Inr (Inl e)" by simp
      from Cons.IH [OF this] obtain pre c post z where
        "cgs = pre @ c # post"
        "\<forall>c\<in>set pre. \<exists>ct. newCGT las dg dw t c = Inr (ct, None)"
        "newCGT las dg dw t c = Inr (z, Some e)" by blast
      with Inr r None have "cg # cgs = (cg # pre) @ c # post \<and>
        (\<forall>c\<in>set (cg # pre). \<exists>ct. newCGT las dg dw t c = Inr (ct, None)) \<and>
        newCGT las dg dw t c = Inr (z, Some e)" by simp
      then show ?thesis by blast
    next
      case (Some e')
      with Inr r Cons.prems have "e' = e" by simp
      with Inr r Some have "cg # cgs = [] @ cg # cgs \<and>
        (\<forall>c\<in>set []. \<exists>ct. newCGT las dg dw t c = Inr (ct, None)) \<and>
        newCGT las dg dw t cg = Inr (ct, Some e)" by simp
      then show ?thesis by blast
    qed
  qed
qed

lemma loop_err_conv:
  "(\<forall>c\<in>set pre. \<exists>ct. newCGT las dg dw t c = Inr (ct, None)) \<Longrightarrow>
   newCGT las dg dw t cg = Inr (z, Some e) \<Longrightarrow>
   setClusterGatewayTargets_loop las dg dw t acc (pre @ cg # post) = Inr (Inl e)"
  by (induction pre arbitrary: acc) auto

lemma NewGatewayTarget_eq:
  "NewGatewayTarget las dg dw gw cgs lb =
     (case setClusterGatewayTargets_loop las dg dw
             \<lparr>Gateway = gw, ClusterGatewayTargets = None, LoadBalancing = lb\<rparr> [] cgs of
        Inl p \<Rightarrow> Inl p
      | Inr (Inl e) \<Rightarrow>
          Inr (Some \<lparr>Gateway = gw, ClusterGatewayTargets = None, LoadBalancing = lb\<rparr>, Some e)
      | Inr (Inr ts) \<Rightarrow>
          Inr (Some \<lparr>Gateway = gw, ClusterGatewayTargets = Some ts, LoadBalancing = lb\<rparr>,
               None))"
  by (simp add: NewGatewayTarget_def setClusterGatewayTargets_def Let_def split: sum.splits)

lemma NewGatewayTarget_ok:
  assumes "NewGatewayTarget las dg dw gw cgs lb = Inr (r, None)"
  shows "\<exists>ts. r = Some \<lparr>Gateway = gw, ClusterGatewayTargets = Some ts, LoadBalancing = lb\<rparr> \<and>
           list_all2 (\<lambda>cg ct. newCGT las dg dw
               \<lparr>Gateway = gw, ClusterGatewayTargets = None, LoadBalancing = lb\<rparr> cg = Inr (ct, None))
             cgs ts"
proof -
  let ?t = "\<lparr>Gateway = gw, ClusterGatewayTargets = None, LoadBalancing = lb\<rparr>"
  from assms obtain ts where
    loop: "setClusterGatewayTargets_loop las dg dw ?t [] cgs = Inr (Inr ts)" and
    r: "r = Some \<lparr>Gateway = gw, ClusterGatewayTargets = Some ts, LoadBalancing = lb\<rparr>"
    by (auto simp: NewGatewayTarget_eq split: sum.splits)
  from loop_ok [OF loop] r show ?thesis by simp
qed

lemma NewGatewayTarget_err:
  assumes "NewGatewayTarget las dg dw gw cgs lb = Inr (r, Some e)"
  shows "r = Some \<lparr>Gateway = gw, ClusterGatewayTargets = None, LoadBalancing = lb\<rparr> \<and>
         setClusterGatewayTargets_loop las dg dw
           \<lparr>Gateway = gw, ClusterGatewayTargets = None, LoadBalancing = lb\<rparr> [] cgs = Inr (Inl e)"
  using assms by (auto simp: NewGatewayTarget_eq split: sum.splits)

lemma list_all2_newCGT_cg:
  assumes "list_all2 (\<lambda>cg ct. newCGT las dg dw t cg = Inr (ct, None)) cgs ts"
  shows "map ClusterGateway ts = map Some cgs"
  using assms
proof (induction cgs ts rule: list_all2_induct)
  case Nil
  then show ?case by simp
next
  case (Cons cg cgs ct ts)
  from Cons.hyps(1) have "ClusterGateway ct = Some cg"
    unfolding NewClusterGatewayTarget_eq by (auto split: sum.splits)
  with Cons.IH show ?case by simp
qed

lemma GetDefaultGeo_default:
  assumes "loadBalancing = None \<or>
     (\<exists>lb. loadBalancing = Some lb \<and>
        (LoadBalancingSpec.Geo lb = None \<or>
         (\<exists>g. LoadBalancingSpec.Geo lb = Some g \<and> DefaultGeo g = dg)))"
  shows "GetDefaultGeo dg \<lparr>Gateway = gateway, ClusterGatewayTargets = cts,
                          LoadBalancing = loadBalancing\<rparr> = dg"
  using assms by (auto simp: GetDefaultGeo_def)

section \<open>Geo resolution\<close>

text \<open>
  Claim C1. When the policy is absent, or has no geo part, or its \<open>defaultGeo\<close> is the
  system default geo \<open>dg\<close>, every target that is constructed has the geo \<open>dg\<close>, whatever
  the labels of its cluster gateway are: both for a single
  \<open>NewClusterGatewayTarget\<close> called with the default geo of such a policy, and for every
  target of a \<open>GatewayTarget\<close> that \<open>NewGatewayTarget\<close> returns without an error.
\<close>

theorem default_geo_ignores_labels:
  assumes pol: "loadBalancing = None \<or>
     (\<exists>lb. loadBalancing = Some lb \<and>
        (LoadBalancingSpec.Geo lb = None \<or>
         (\<exists>g. LoadBalancingSpec.Geo lb = Some g \<and> DefaultGeo g = dg)))"
  shows "(\<forall>cg w cws t.
            NewClusterGatewayTarget las dg cg
              (GetDefaultGeo dg \<lparr>Gateway = gateway, ClusterGatewayTargets = None,
                                 LoadBalancing = loadBalancing\<rparr>) w cws = Inr (t, None)
            \<longrightarrow> GetGeo t = Inr dg) \<and>
         (\<forall>mcg. NewGatewayTarget las dg dw gateway clusterGateways loadBalancing
                   = Inr (Some mcg, None)
            \<longrightarrow> (\<exists>ts. ClusterGatewayTargets mcg = Some ts \<and>
                       length ts = length clusterGateways \<and>
                       (\<forall>t\<in>set ts. GetGeo t = Inr dg)))"
proof -
  let ?t0 = "\<lparr>Gateway = gateway, ClusterGatewayTargets = None,
              LoadBalancing = loadBalancing\<rparr>"
  have dflt: "GetDefaultGeo dg ?t0 = dg"
    by (rule GetDefaultGeo_default [OF pol])
  have one: "GetGeo t = Inr dg"
    if "NewClusterGatewayTarget las dg cg (GetDefaultGeo dg ?t0) w cws = Inr (t, None)"
    for cg w cws t
    using that unfolding dflt NewClusterGatewayTarget_eq
    by (auto simp: GetGeo_def split: sum.splits)
  have all: "\<exists>ts. ClusterGatewayTargets mcg = Some ts \<and>
                  length ts = length clusterGateways \<and> (\<forall>t\<in>set ts. GetGeo t = Inr dg)"
    if new: "NewGatewayTarget las dg dw gateway clusterGateways loadBalancing
               = Inr (Some mcg, None)" for mcg
  proof -
    from NewGatewayTarget_ok [OF new] obtain ts where
      mcg: "mcg = \<lparr>Gateway = gateway, ClusterGatewayTargets = Some ts,
                   LoadBalancing = loadBalancing\<rparr>" and
      each: "list_all2 (\<lambda>cg ct. newCGT las dg dw ?t0 cg = Inr (ct, None)) clusterGateways ts"
      by auto
    have "GetGeo t = Inr dg" if "t \<in> set ts" for t
    proof -
      from that each obtain cg where "newCGT las dg dw ?t0 cg = Inr (t, None)"
        by (auto simp: list_all2_conv_all_nth in_set_conv_nth)
      then show ?thesis by (rule one)
    qed
    with mcg each show ?thesis by (auto dest: list_all2_lengthD)
  qed
  from one all show ?thesis by blast
qed

theorem default_geo_ignores_labels_witness:
  "NewGatewayTarget matchLabelsAsSelector ''default'' 120 None [exampleA, exampleB] None
     = Inr (Some \<lparr>Gateway = None,
                  ClusterGatewayTargets =
                    Some [\<lparr>ClusterGateway = Some exampleA, Geo = Some ''default'',
                           Weight = Some 120\<rparr>,
                          \<lparr>ClusterGateway = Some exampleB, Geo = Some ''default'',
                           Weight = Some 120\<rparr>],
                  LoadBalancing = None\<rparr>, None) \<and>
   Labels exampleA LabelLBAttributeGeoCode = Some ''US'' \<and>
   GetGeo \<lparr>ClusterGateway = Some exampleA, Geo = Some ''default'', Weight = Some 120\<rparr>
     = Inr ''default''"
  using default_geo_ignores_labels
    [of "None :: (string \<times> string) list LoadBalancingSpec option" "''default''"
        matchLabelsAsSelector None 120 "[exampleA, exampleB]"]
  by (simp add: op_defs example_defs)

text \<open>
  Claim C4. When the policy has a geo part whose \<open>defaultGeo\<close> differs from the system
  default geo \<open>dg\<close>, a constructed target has the value of the label
  \<open>kuadrant.io/lb-attribute-geo-code\<close> of its cluster gateway as geo when the gateway
  carries that label, and the policy's \<open>defaultGeo\<close> when it does not: for a single
  \<open>NewClusterGatewayTarget\<close> and, in input order, for the targets of a
  \<open>GatewayTarget\<close> that \<open>NewGatewayTarget\<close> returns without an error.
\<close>

theorem non_default_geo_label_or_policy:
  assumes lb: "loadBalancing = Some lb"
    and geo: "LoadBalancingSpec.Geo lb = Some g"
    and nd: "DefaultGeo g \<noteq> dg"
  shows "(\<forall>cg w cws t.
            NewClusterGatewayTarget las dg cg
              (GetDefaultGeo dg \<lparr>Gateway = gateway, ClusterGatewayTargets = None,
                                 LoadBalancing = loadBalancing\<rparr>) w cws = Inr (t, None)
            \<longrightarrow> GetGeo t = Inr (case Labels cg LabelLBAttributeGeoCode of
                                 Some gc \<Rightarrow> gc
                               | None \<Rightarrow> DefaultGeo g)) \<and>
         (\<forall>mcg. NewGatewayTarget las dg dw gateway clusterGateways loadBalancing
                   = Inr (Some mcg, None)
            \<longrightarrow> (\<exists>ts. ClusterGatewayTargets mcg = Some ts \<and>
                       map GetGeo ts =
                       map (\<lambda>cg. Inr (case Labels cg LabelLBAttributeGeoCode of
                                         Some gc \<Rightarrow> gc
                                       | None \<Rightarrow> DefaultGeo g)) clusterGateways))"
proof -
  let ?t0 = "\<lparr>Gateway = gateway, ClusterGatewayTargets = None,
              LoadBalancing = loadBalancing\<rparr>"
  let ?geo = "\<lambda>cg. case Labels cg LabelLBAttributeGeoCode of
                      Some gc \<Rightarrow> gc | None \<Rightarrow> DefaultGeo g"
  have dflt: "GetDefaultGeo dg ?t0 = DefaultGeo g"
    using lb geo by (simp add: GetDefaultGeo_def)
  have one: "GetGeo t = Inr (?geo cg)"
    if "NewClusterGatewayTarget las dg cg (GetDefaultGeo dg ?t0) w cws = Inr (t, None)"
    for cg w cws t
    using that nd unfolding dflt NewClusterGatewayTarget_eq
    by (auto simp: GetGeo_def split: sum.splits option.splits)
  have all: "\<exists>ts. ClusterGatewayTargets mcg = Some ts \<and>
                  map GetGeo ts = map (\<lambda>cg. Inr (?geo cg)) clusterGateways"
    if new: "NewGatewayTarget las dg dw gateway clusterGateways loadBalancing
               = Inr (Some mcg, None)" for mcg
  proof -
    from NewGatewayTarget_ok [OF new] obtain ts where
      mcg: "mcg = \<lparr>Gateway = gateway, ClusterGatewayTargets = Some ts,
                   LoadBalancing = loadBalancing\<rparr>" and
      each: "list_all2 (\<lambda>cg ct. newCGT las dg dw ?t0 cg = Inr (ct, None)) clusterGateways ts"
      by auto
    from each have "list_all2 (\<lambda>cg ct. GetGeo ct = Inr (?geo cg)) clusterGateways ts"
      by (rule list_all2_mono) (rule one)
    then have "map GetGeo ts = map (\<lambda>cg. Inr (?geo cg)) clusterGateways"
      by (induction rule: list_all2_induct) simp_all
    with mcg show ?thesis by simp
  qed
  from one all show ?thesis by blast
qed

theorem non_default_geo_label_or_policy_witness:
  "LoadBalancingSpec.Geo examplePolicy = Some \<lparr>DefaultGeo = ''EU''\<rparr> \<and>
   ''EU'' \<noteq> ''default'' \<and>
   NewGatewayTarget matchLabelsAsSelector ''default'' 120 None [exampleA, exampleB]
       (Some examplePolicy)
     = Inr (Some \<lparr>Gateway = None,
                  ClusterGatewayTargets =
                    Some [\<lparr>ClusterGateway = Some exampleA, Geo = Some ''US'',
                           Weight = Some 200\<rparr>,
                          \<lparr>ClusterGateway = Some exampleB, Geo = Some ''EU'',
                           Weight = Some 100\<rparr>],
                  LoadBalancing = Some examplePolicy\<rparr>, None) \<and>
   map GetGeo [\<lparr>ClusterGateway = Some exampleA, Geo = Some ''US'', Weight = Some 200\<rparr>,
               \<lparr>ClusterGateway = Some exampleB, Geo = Some ''EU'', Weight = Some 100\<rparr>]
     = [Inr ''US'', Inr ''EU'']"
  using non_default_geo_label_or_policy
    [of "Some examplePolicy" examplePolicy "\<lparr>DefaultGeo = ''EU''\<rparr>" "''default''"
        matchLabelsAsSelector None 120 "[exampleA, exampleB]"]
  by (simp add: op_defs example_defs)

section \<open>Aggregation\<close>

text \<open>
  Claim C5. When \<open>NewGatewayTarget\<close> returns without an error, the \<open>GatewayTarget\<close>
  holds as many targets as there are cluster gateways, and the i-th target is the one
  \<open>NewClusterGatewayTarget\<close> builds from the i-th cluster gateway (which it embeds),
  with the defaults and the overrides of the policy. On the empty slice the construction
  succeeds with the empty sequence of targets.
\<close>

theorem one_target_per_cluster_gateway:
  "(\<forall>r. NewGatewayTarget las dg dw gateway clusterGateways loadBalancing = Inr (r, None)
      \<longrightarrow> (\<exists>ts. r = Some \<lparr>Gateway = gateway, ClusterGatewayTargets = Some ts,
                            LoadBalancing = loadBalancing\<rparr> \<and>
                 length ts = length clusterGateways \<and>
                 (\<forall>i<length clusterGateways.
                    ClusterGateway (ts ! i) = Some (clusterGateways ! i) \<and>
                    NewClusterGatewayTarget las dg (clusterGateways ! i)
                      (GetDefaultGeo dg \<lparr>Gateway = gateway, ClusterGatewayTargets = None,
                                         LoadBalancing = loadBalancing\<rparr>)
                      (GetDefaultWeight dw \<lparr>Gateway = gateway, ClusterGatewayTargets = None,
                                            LoadBalancing = loadBalancing\<rparr>)
                      (customWeightsOf \<lparr>Gateway = gateway, ClusterGatewayTargets = None,
                                        LoadBalancing = loadBalancing\<rparr>)
                    = Inr (ts ! i, None)))) \<and>
   NewGatewayTarget las dg dw gateway [] loadBalancing
     = Inr (Some \<lparr>Gateway = gateway, ClusterGatewayTargets = Some [],
                  LoadBalancing = loadBalancing\<rparr>, None)"
proof -
  let ?t0 = "\<lparr>Gateway = gateway, ClusterGatewayTargets = None,
              LoadBalancing = loadBalancing\<rparr>"
  have ok: "\<exists>ts. r = Some \<lparr>Gateway = gateway, ClusterGatewayTargets = Some ts,
                            LoadBalancing = loadBalancing\<rparr> \<and>
                 length ts = length clusterGateways \<and>
                 (\<forall>i<length clusterGateways.
                    ClusterGateway (ts ! i) = Some (clusterGateways ! i) \<and>
                    newCGT las dg dw ?t0 (clusterGateways ! i) = Inr (ts ! i, None))"
    if new: "NewGatewayTarget las dg dw gateway clusterGateways loadBalancing = Inr (r, None)"
    for r
  proof -
    from NewGatewayTarget_ok [OF new] obtain ts where
      r: "r = Some \<lparr>Gateway = gateway, ClusterGatewayTargets = Some ts,
                    LoadBalancing = loadBalancing\<rparr>" and
      each: "list_all2 (\<lambda>cg ct. newCGT las dg dw ?t0 cg = Inr (ct, None)) clusterGateways ts"
      by auto
    from each have len: "length ts = length clusterGateways"
      by (simp add: list_all2_lengthD)
    have nth: "newCGT las dg dw ?t0 (clusterGateways ! i) = Inr (ts ! i, None)"
      if "i < length clusterGateways" for i
      using each that by (simp add: list_all2_conv_all_nth)
    have cg: "ClusterGateway (ts ! i) = Some (clusterGateways ! i)"
      if "i < length clusterGateways" for i
    proof -
      from list_all2_newCGT_cg [OF each] have "map ClusterGateway ts ! i = map Some clusterGateways ! i"
        by simp
      with that len show ?thesis by simp
    qed
    from r len nth cg show ?thesis by blast
  qed
  have empty: "NewGatewayTarget las dg dw gateway [] loadBalancing
     = Inr (Some \<lparr>Gateway = gateway, ClusterGatewayTargets = Some [],
                  LoadBalancing = loadBalancing\<rparr>, None)"
    by (simp add: NewGatewayTarget_eq)
  from ok empty show ?thesis by blast
qed

theorem one_target_per_cluster_gateway_witness:
  "NewGatewayTarget matchLabelsAsSelector ''default'' 120 None [exampleA, exampleB]
       (Some examplePolicy)
     = Inr (Some \<lparr>Gateway = None,
                  ClusterGatewayTargets =
                    Some [\<lparr>ClusterGateway = Some exampleA, Geo = Some ''US'',
                           Weight = Some 200\<rparr>,
                          \<lparr>ClusterGateway = Some exampleB, Geo = Some ''EU'',
                           Weight = Some 100\<rparr>],
                  LoadBalancing = Some examplePolicy\<rparr>, None) \<and>
   NewGatewayTarget matchLabelsAsSelector ''default'' 120 None [] (Some examplePolicy)
     = Inr (Some \<lparr>Gateway = None, ClusterGatewayTargets = Some [],
                  LoadBalancing = Some examplePolicy\<rparr>, None)"
  using one_target_per_cluster_gateway
    [of matchLabelsAsSelector "''default''" 120 None "[exampleA, exampleB]"
        "Some examplePolicy"]
  by (simp add: op_defs example_defs)

text \<open>
  Claim C9. When \<open>NewGatewayTarget\<close> returns an error, the pointer returned with it
  is not nil, and the \<open>GatewayTarget\<close> it points to holds the gateway and the policy
  and the nil slice of targets.
\<close>

theorem error_leaves_targets_nil:
  "\<forall>r e. NewGatewayTarget las dg dw gateway clusterGateways loadBalancing = Inr (r, Some e)
     \<longrightarrow> r = Some \<lparr>Gateway = gateway, ClusterGatewayTargets = None,
                   LoadBalancing = loadBalancing\<rparr>"
  by (auto dest: NewGatewayTarget_err)

theorem error_leaves_targets_nil_witness:
  "NewGatewayTarget matchLabelsAsSelector ''default'' 120 None [exampleA, exampleB]
       (Some exampleBadPolicy)
     = Inr (Some \<lparr>Gateway = None, ClusterGatewayTargets = None,
                  LoadBalancing = Some exampleBadPolicy\<rparr>, Some ''invalid label key'') \<and>
   NewClusterGatewayTarget matchLabelsAsSelector ''default'' exampleA ''default'' 100
       (Custom (the (Weighted exampleBadPolicy)))
     = Inr (\<lparr>ClusterGateway = Some exampleA, Geo = Some ''default'', Weight = Some 200\<rparr>,
            None)"
  using error_leaves_targets_nil
    [of matchLabelsAsSelector "''default''" 120 None "[exampleA, exampleB]"
        "Some exampleBadPolicy"]
  by (simp add: op_defs example_defs exampleBadPolicy_def)

section \<open>Weight resolution\<close>

lemma setWeight_loop_skip:
  assumes "GetLabels t = Inr ls" and "\<forall>c\<in>set pre. skipped las ls c"
  shows "setWeight_loop las t w (pre @ rest) = setWeight_loop las t w rest"
  using assms(2)
proof (induction pre)
  case Nil
  then show ?case by simp
next
  case (Cons c pre)
  then obtain cw selector where "c = Some cw" "las (Selector cw) = Inr selector"
    "\<not> selector ls" by auto
  with Cons assms(1) show ?case by simp
qed

lemma setWeight_loop_err:
  assumes "GetLabels t = Inr ls" and "setWeight_loop las t w cws = Inr (Inl e)"
  shows "\<exists>pre cw rest. cws = pre @ Some cw # rest \<and> (\<forall>c\<in>set pre. skipped las ls c) \<and>
           las (Selector cw) = Inl e"
  using assms(2)
proof (induction cws)
  case Nil
  then show ?case by simp
next
  case (Cons c cws)
  from Cons.prems obtain cw where c: "c = Some cw"
    by (cases c) auto
  show ?case
  proof (cases "las (Selector cw)")
    case (Inl e')
    with Cons.prems c have "e' = e" by simp
    with Inl c have "c # cws = [] @ Some cw # cws \<and> (\<forall>c\<in>set []. skipped las ls c) \<and>
      las (Selector cw) = Inl e" by simp
    then show ?thesis by blast
  next
    case (Inr selector)
    with Cons.prems c assms(1) have nomatch: "\<not> selector ls"
      and rest: "setWeight_loop las t w cws = Inr (Inl e)"
      by (auto split: if_splits)
    from Cons.IH [OF rest] obtain pre cw' rest' where
      "cws = pre @ Some cw' # rest'" "\<forall>c\<in>set pre. skipped las ls c"
      "las (Selector cw') = Inl e" by blast
    with c Inr nomatch have "c # cws = (c # pre) @ Some cw' # rest' \<and>
      (\<forall>c\<in>set (c # pre). skipped las ls c) \<and> las (Selector cw') = Inl e" by simp
    then show ?thesis by blast
  qed
qed

lemma setWeight_loop_no_panic:
  assumes "GetLabels t = Inr ls" and "None \<notin> set cws"
  shows "\<exists>r. setWeight_loop las t w cws = Inr r"
  using assms(2)
proof (induction cws)
  case Nil
  then show ?case by simp
next
  case (Cons c cws)
  then obtain cw where "c = Some cw" by (cases c) auto
  with Cons assms(1) show ?case by (auto split: sum.splits)
qed

lemma GetLabels_new [simp]:
  "GetLabels \<lparr>ClusterGateway = Some cg, Geo = g, Weight = w\<rparr> = Inr (Labels cg)"
  by (simp add: GetLabels_def)

lemma NewClusterGatewayTarget_no_panic:
  assumes "None \<notin> set cws"
  shows "\<exists>t err. NewClusterGatewayTarget las dg cg g w cws = Inr (t, err)"
proof -
  from setWeight_loop_no_panic [OF GetLabels_new assms] obtain r where
    "setWeight_loop las \<lparr>ClusterGateway = Some cg, Geo = None, Weight = None\<rparr> w cws = Inr r"
    by blast
  then show ?thesis unfolding NewClusterGatewayTarget_eq by (cases r) auto
qed

lemma NewClusterGatewayTarget_err_iff:
  "(\<exists>z. NewClusterGatewayTarget las dg cg g w cws = Inr (z, Some e)) \<longleftrightarrow>
   setWeight_loop las \<lparr>ClusterGateway = Some cg, Geo = None, Weight = None\<rparr> w cws
     = Inr (Inl e)"
  unfolding NewClusterGatewayTarget_eq by (auto split: sum.splits)

lemma loop_some_err:
  assumes "\<forall>c\<in>set cgs. \<exists>ct err. newCGT las dg dw t c = Inr (ct, err)"
    and "\<exists>c\<in>set cgs. \<exists>z e. newCGT las dg dw t c = Inr (z, Some e)"
  shows "\<exists>e. setClusterGatewayTargets_loop las dg dw t acc cgs = Inr (Inl e)"
  using assms
proof (induction cgs arbitrary: acc)
  case Nil
  then show ?case by simp
next
  case (Cons cg cgs)
  from Cons.prems(1) obtain ct err where r: "newCGT las dg dw t cg = Inr (ct, err)"
    by auto
  show ?case
  proof (cases err)
    case (Some e)
    with r show ?thesis by simp
  next
    case None
    with r Cons.prems(2) have "\<exists>c\<in>set cgs. \<exists>z e. newCGT las dg dw t c = Inr (z, Some e)"
      by auto
    with Cons.IH [of "acc @ [ct]"] Cons.prems(1) obtain e where
      "setClusterGatewayTargets_loop las dg dw t (acc @ [ct]) cgs = Inr (Inl e)" by auto
    with r None show ?thesis by simp
  qed
qed

text \<open>
  Claim C3. For a cluster gateway \<open>cg\<close> and the overrides of the policy: when the
  overrides before an override \<open>cw\<close> are parsed and do not match the labels of \<open>cg\<close>, and
  the selector of \<open>cw\<close> is parsed and matches them, the target is constructed with the
  weight of \<open>cw\<close>, whatever follows \<open>cw\<close> in the sequence (the loop has stopped); when all
  overrides are parsed and none matches, the target is constructed with the effective
  default, the \<open>defaultWeight\<close> of the weighted part of the policy when there is one and
  the system default weight \<open>dw\<close> otherwise.
\<close>

theorem first_matching_override_gives_weight:
  "(\<forall>pre cw rest selector.
      customWeightsOf \<lparr>Gateway = gateway, ClusterGatewayTargets = None,
                       LoadBalancing = loadBalancing\<rparr> = pre @ Some cw # rest \<and>
      (\<forall>c\<in>set pre. skipped las (Labels cg) c) \<and>
      las (Selector cw) = Inr selector \<and> selector (Labels cg)
      \<longrightarrow> (\<exists>t. newCGT las dg dw \<lparr>Gateway = gateway, ClusterGatewayTargets = None,
                                    LoadBalancing = loadBalancing\<rparr> cg = Inr (t, None) \<and>
                GetWeight t = Inr (CustomWeight.Weight cw))) \<and>
   ((\<forall>c\<in>set (customWeightsOf \<lparr>Gateway = gateway, ClusterGatewayTargets = None,
                                LoadBalancing = loadBalancing\<rparr>). skipped las (Labels cg) c)
      \<longrightarrow> (\<exists>t. newCGT las dg dw \<lparr>Gateway = gateway, ClusterGatewayTargets = None,
                                    LoadBalancing = loadBalancing\<rparr> cg = Inr (t, None) \<and>
                GetWeight t =
                  Inr (case loadBalancing of
                         None \<Rightarrow> dw
                       | Some lb \<Rightarrow> (case Weighted lb of
                                       None \<Rightarrow> dw
                                     | Some wt \<Rightarrow> DefaultWeight wt))))"
proof -
  let ?mcg = "\<lparr>Gateway = gateway, ClusterGatewayTargets = None,
              LoadBalancing = loadBalancing\<rparr>"
  let ?tgt = "\<lparr>ClusterGateway = Some cg, Geo = None, Weight = None\<rparr>"
  have lbl: "GetLabels ?tgt = Inr (Labels cg)" by simp
  have first: "\<exists>t. newCGT las dg dw ?mcg cg = Inr (t, None) \<and>
                   GetWeight t = Inr (CustomWeight.Weight cw)"
    if "customWeightsOf ?mcg = pre @ Some cw # rest"
      and "\<forall>c\<in>set pre. skipped las (Labels cg) c"
      and "las (Selector cw) = Inr selector" and "selector (Labels cg)"
    for pre cw rest selector
  proof -
    from setWeight_loop_skip [OF lbl that(2)] that(3,4)
    have "setWeight_loop las ?tgt (GetDefaultWeight dw ?mcg) (pre @ Some cw # rest)
            = Inr (Inr (CustomWeight.Weight cw))"
      by simp
    then show ?thesis
      unfolding NewClusterGatewayTarget_eq that(1) by (simp add: GetWeight_def)
  qed
  have none: "\<exists>t. newCGT las dg dw ?mcg cg = Inr (t, None) \<and>
                GetWeight t =
                  Inr (case loadBalancing of
                         None \<Rightarrow> dw
                       | Some lb \<Rightarrow> (case Weighted lb of
                                       None \<Rightarrow> dw
                                     | Some wt \<Rightarrow> DefaultWeight wt))"
    if "\<forall>c\<in>set (customWeightsOf ?mcg). skipped las (Labels cg) c"
  proof -
    from setWeight_loop_skip [OF lbl that, of "GetDefaultWeight dw ?mcg" "[]"]
    have "setWeight_loop las ?tgt (GetDefaultWeight dw ?mcg) (customWeightsOf ?mcg)
            = Inr (Inr (GetDefaultWeight dw ?mcg))"
      by simp
    then show ?thesis
      unfolding NewClusterGatewayTarget_eq
      by (simp add: GetWeight_def GetDefaultWeight_def)
  qed
  from first none show ?thesis by blast
qed

theorem first_matching_override_gives_weight_witness:
  "customWeightsOf \<lparr>Gateway = None, ClusterGatewayTargets = None,
                    LoadBalancing = Some examplePolicy\<rparr>
     = [] @ Some \<lparr>Selector = Some [(''tier'', ''premium'')], Weight = 200\<rparr> # [] \<and>
   newCGT matchLabelsAsSelector ''default'' 120
       \<lparr>Gateway = None, ClusterGatewayTargets = None, LoadBalancing = Some examplePolicy\<rparr>
       exampleA
     = Inr (\<lparr>ClusterGateway = Some exampleA, Geo = Some ''US'', Weight = Some 200\<rparr>, None) \<and>
   GetWeight \<lparr>ClusterGateway = Some exampleA, Geo = Some ''US'', Weight = Some 200\<rparr>
     = Inr 200 \<and>
   newCGT matchLabelsAsSelector ''default'' 120
       \<lparr>Gateway = None, ClusterGatewayTargets = None, LoadBalancing = Some examplePolicy\<rparr>
       exampleB
     = Inr (\<lparr>ClusterGateway = Some exampleB, Geo = Some ''EU'', Weight = Some 100\<rparr>, None) \<and>
   GetWeight \<lparr>ClusterGateway = Some exampleB, Geo = Some ''EU'', Weight = Some 100\<rparr>
     = Inr 100"
  using first_matching_override_gives_weight
    [of None "Some examplePolicy" matchLabelsAsSelector exampleA "''default''" 120]
  by (simp add: op_defs example_defs)

text \<open>
  Claim C2, as stated, fails: a malformed selector makes \<open>NewGatewayTarget\<close> fail only
  when the loop of \<open>setWeight\<close> reaches it for some cluster gateway. Here the second
  override of the policy has a selector that is not parsed, the first override matches
  the only cluster gateway, and the construction succeeds; so it does on the empty list
  of cluster gateways.
\<close>

theorem unreached_malformed_selector_counterexample:
  "Custom (the (Weighted exampleBadPolicy)) ! 1
     = Some \<lparr>Selector = Some [('''', ''x'')], Weight = 1\<rparr> \<and>
   matchLabelsAsSelector (Some [('''', ''x'')]) = Inl ''invalid label key'' \<and>
   NewGatewayTarget matchLabelsAsSelector ''default'' 120 None [exampleA]
       (Some exampleBadPolicy)
     = Inr (Some \<lparr>Gateway = None,
                  ClusterGatewayTargets =
                    Some [\<lparr>ClusterGateway = Some exampleA, Geo = Some ''default'',
                           Weight = Some 200\<rparr>],
                  LoadBalancing = Some exampleBadPolicy\<rparr>, None) \<and>
   NewGatewayTarget matchLabelsAsSelector ''default'' 120 None [] (Some exampleBadPolicy)
     = Inr (Some \<lparr>Gateway = None, ClusterGatewayTargets = Some [],
                  LoadBalancing = Some exampleBadPolicy\<rparr>, None)"
  by (simp add: op_defs example_defs exampleBadPolicy_def)

text \<open>
  Claim C2, amended. Let no entry of the overrides of the policy be nil. If for some
  cluster gateway of the list an override with a malformed selector is reached, that is,
  the overrides before it are parsed and do not match the labels of that gateway, then
  \<open>NewGatewayTarget\<close> returns an error, together with a \<open>GatewayTarget\<close> whose slice of
  targets is nil, whatever the cluster gateways before that one resolved to. Conversely
  every error that \<open>NewGatewayTarget\<close> returns is the error of parsing the selector of an
  override that is reached for some cluster gateway of the list, and
  \<open>NewGatewayTarget\<close> does not panic.
\<close>

theorem reached_malformed_selector_aborts:
  assumes nonnil: "None \<notin> set (customWeightsOf \<lparr>Gateway = gateway,
                      ClusterGatewayTargets = None, LoadBalancing = loadBalancing\<rparr>)"
  shows "((\<exists>cg\<in>set clusterGateways. \<exists>pre cw rest e.
             customWeightsOf \<lparr>Gateway = gateway, ClusterGatewayTargets = None,
                              LoadBalancing = loadBalancing\<rparr> = pre @ Some cw # rest \<and>
             (\<forall>c\<in>set pre. skipped las (Labels cg) c) \<and> las (Selector cw) = Inl e)
          \<longrightarrow> (\<exists>e. NewGatewayTarget las dg dw gateway clusterGateways loadBalancing
                      = Inr (Some \<lparr>Gateway = gateway, ClusterGatewayTargets = None,
                                   LoadBalancing = loadBalancing\<rparr>, Some e))) \<and>
         (\<forall>r e. NewGatewayTarget las dg dw gateway clusterGateways loadBalancing
                   = Inr (r, Some e)
            \<longrightarrow> r = Some \<lparr>Gateway = gateway, ClusterGatewayTargets = None,
                          LoadBalancing = loadBalancing\<rparr> \<and>
                (\<exists>cg\<in>set clusterGateways. \<exists>pre cw rest.
                   customWeightsOf \<lparr>Gateway = gateway, ClusterGatewayTargets = None,
                                    LoadBalancing = loadBalancing\<rparr> = pre @ Some cw # rest \<and>
                   (\<forall>c\<in>set pre. skipped las (Labels cg) c) \<and>
                   las (Selector cw) = Inl e)) \<and>
         (\<exists>r err. NewGatewayTarget las dg dw gateway clusterGateways loadBalancing
                     = Inr (r, err))"
proof -
  let ?mcg = "\<lparr>Gateway = gateway, ClusterGatewayTargets = None,
               LoadBalancing = loadBalancing\<rparr>"
  let ?tgt = "\<lambda>cg. \<lparr>ClusterGateway = Some cg, Geo = None, Weight = None\<rparr>"
  have total: "\<forall>c\<in>set clusterGateways. \<exists>ct err. newCGT las dg dw ?mcg c = Inr (ct, err)"
    using NewClusterGatewayTarget_no_panic [OF nonnil] by blast
  have fails: "\<exists>e. NewGatewayTarget las dg dw gateway clusterGateways loadBalancing
                      = Inr (Some ?mcg, Some e)"
    if reach: "\<exists>cg\<in>set clusterGateways. \<exists>pre cw rest e.
             customWeightsOf ?mcg = pre @ Some cw # rest \<and>
             (\<forall>c\<in>set pre. skipped las (Labels cg) c) \<and> las (Selector cw) = Inl e"
  proof -
    from reach obtain cg pre cw rest e where cg: "cg \<in> set clusterGateways"
      and split: "customWeightsOf ?mcg = pre @ Some cw # rest"
      and pre: "\<forall>c\<in>set pre. skipped las (Labels cg) c"
      and bad: "las (Selector cw) = Inl e" by blast
    have "setWeight_loop las (?tgt cg) (GetDefaultWeight dw ?mcg) (pre @ Some cw # rest)
            = Inr (Inl e)"
      using setWeight_loop_skip [OF GetLabels_new pre] bad by simp
    then have "\<exists>z. newCGT las dg dw ?mcg cg = Inr (z, Some e)"
      unfolding NewClusterGatewayTarget_err_iff split .
    with cg have "\<exists>c\<in>set clusterGateways. \<exists>z e. newCGT las dg dw ?mcg c = Inr (z, Some e)"
      by blast
    from loop_some_err [OF total this, of "[]"] obtain e' where
      "setClusterGatewayTargets_loop las dg dw ?mcg [] clusterGateways = Inr (Inl e')"
      by blast
    then show ?thesis by (simp add: NewGatewayTarget_eq)
  qed
  have only: "r = Some ?mcg \<and>
                (\<exists>cg\<in>set clusterGateways. \<exists>pre cw rest.
                   customWeightsOf ?mcg = pre @ Some cw # rest \<and>
                   (\<forall>c\<in>set pre. skipped las (Labels cg) c) \<and>
                   las (Selector cw) = Inl e)"
    if err: "NewGatewayTarget las dg dw gateway clusterGateways loadBalancing
               = Inr (r, Some e)" for r e
  proof -
    from NewGatewayTarget_err [OF err] have r: "r = Some ?mcg"
      and loop: "setClusterGatewayTargets_loop las dg dw ?mcg [] clusterGateways
                   = Inr (Inl e)" by simp_all
    from loop_err [OF loop] obtain pre cg post z where
      split: "clusterGateways = pre @ cg # post" and
      "newCGT las dg dw ?mcg cg = Inr (z, Some e)" by blast
    from split have cg: "cg \<in> set clusterGateways" by simp
    from \<open>newCGT las dg dw ?mcg cg = Inr (z, Some e)\<close>
    have "\<exists>z. newCGT las dg dw ?mcg cg = Inr (z, Some e)" ..
    then have "setWeight_loop las (?tgt cg) (GetDefaultWeight dw ?mcg) (customWeightsOf ?mcg)
                 = Inr (Inl e)"
      unfolding NewClusterGatewayTarget_err_iff .
    from setWeight_loop_err [OF GetLabels_new this] cg r show ?thesis by blast
  qed
  have nopanic: "\<exists>r err. NewGatewayTarget las dg dw gateway clusterGateways loadBalancing
                     = Inr (r, err)"
  proof (cases "\<exists>c\<in>set clusterGateways. \<exists>z e. newCGT las dg dw ?mcg c = Inr (z, Some e)")
    case True
    from loop_some_err [OF total True, of "[]"] show ?thesis
      by (auto simp: NewGatewayTarget_eq)
  next
    case False
    with total have "\<forall>c\<in>set clusterGateways. \<exists>ct. newCGT las dg dw ?mcg c = Inr (ct, None)"
      by (metis option.exhaust)
    then have "\<exists>ts. list_all2 (\<lambda>cg ct. newCGT las dg dw ?mcg cg = Inr (ct, None))
                      clusterGateways ts"
      by (induction clusterGateways) (auto simp: list_all2_Cons1)
    then obtain ts where
      "list_all2 (\<lambda>cg ct. newCGT las dg dw ?mcg cg = Inr (ct, None)) clusterGateways ts" ..
    from loop_ok_conv [OF this, of "[]"] show ?thesis
      by (simp add: NewGatewayTarget_eq)
  qed
  from fails only nopanic show ?thesis by blast
qed

theorem reached_malformed_selector_aborts_witness:
  "None \<notin> set (customWeightsOf \<lparr>Gateway = None, ClusterGatewayTargets = None,
                                  LoadBalancing = Some exampleBadPolicy\<rparr>) \<and>
   customWeightsOf \<lparr>Gateway = None, ClusterGatewayTargets = None,
                    LoadBalancing = Some exampleBadPolicy\<rparr>
     = [Some \<lparr>Selector = Some [(''tier'', ''premium'')], Weight = 200\<rparr>]
       @ Some \<lparr>Selector = Some [('''', ''x'')], Weight = 1\<rparr> # [] \<and>
   matchLabelsAsSelector (Some [('''', ''x'')]) = Inl ''invalid label key'' \<and>
   NewGatewayTarget matchLabelsAsSelector ''default'' 120 None [exampleA, exampleB]
       (Some exampleBadPolicy)
     = Inr (Some \<lparr>Gateway = None, ClusterGatewayTargets = None,
                  LoadBalancing = Some exampleBadPolicy\<rparr>, Some ''invalid label key'')"
  using reached_malformed_selector_aborts
    [of None "Some exampleBadPolicy" "[exampleA, exampleB]" matchLabelsAsSelector
        "''default''" 120]
  by (simp add: op_defs example_defs exampleBadPolicy_def)

section \<open>Grouping by geo\<close>

lemma GetGeo_Inr_iff: "GetGeo t = Inr g \<longleftrightarrow> ClusterGatewayTarget.Geo t = Some g"
  by (simp add: GetGeo_def split: option.splits)

lemma GroupTargetsByGeo_loop_filter:
  assumes "\<forall>t\<in>set ts. ClusterGatewayTarget.Geo t \<noteq> None"
  shows "\<exists>m'. GroupTargetsByGeo_loop m ts = Inr m' \<and>
           (\<forall>g. m' g =
              (if filter (\<lambda>t. GetGeo t = Inr g) ts = [] then m g
               else Some ((case m g of None \<Rightarrow> [] | Some b \<Rightarrow> b)
                          @ filter (\<lambda>t. GetGeo t = Inr g) ts)))"
  using assms
proof (induction ts arbitrary: m)
  case Nil
  then show ?case by simp
next
  case (Cons t ts)
  from Cons.prems obtain g0 where g0: "ClusterGatewayTarget.Geo t = Some g0" by auto
  let ?b0 = "case m g0 of None \<Rightarrow> [] | Some b \<Rightarrow> b"
  let ?m1 = "m(g0 \<mapsto> ?b0 @ [t])"
  from Cons.prems have "\<forall>t\<in>set ts. ClusterGatewayTarget.Geo t \<noteq> None" by simp
  from Cons.IH [OF this, of ?m1] obtain m' where
    loop: "GroupTargetsByGeo_loop ?m1 ts = Inr m'" and
    m': "\<And>g. m' g =
              (if filter (\<lambda>t. GetGeo t = Inr g) ts = [] then ?m1 g
               else Some ((case ?m1 g of None \<Rightarrow> [] | Some b \<Rightarrow> b)
                          @ filter (\<lambda>t. GetGeo t = Inr g) ts))"
    by blast
  from g0 loop have "GroupTargetsByGeo_loop m (t # ts) = Inr m'"
    by (simp add: GetGeo_def)
  moreover have "m' g =
              (if filter (\<lambda>t. GetGeo t = Inr g) (t # ts) = [] then m g
               else Some ((case m g of None \<Rightarrow> [] | Some b \<Rightarrow> b)
                          @ filter (\<lambda>t. GetGeo t = Inr g) (t # ts)))" for g
    using g0 by (cases "g = g0") (simp_all add: m' GetGeo_Inr_iff)
  ultimately show ?case by blast
qed

lemma sum_mset_filter_by_key:
  assumes "finite A" and "\<forall>x\<in>set xs. \<exists>g\<in>A. key x = Some g"
  shows "(\<Sum>g\<in>A. mset (filter (\<lambda>x. key x = Some g) xs)) = mset xs"
proof (rule multiset_eqI)
  fix x
  have "count (\<Sum>g\<in>A. mset (filter (\<lambda>x. key x = Some g) xs)) x
      = (\<Sum>g\<in>A. if key x = Some g then count (mset xs) x else 0)"
    by (simp add: count_sum)
  also have "\<dots> = count (mset xs) x"
  proof (cases "x \<in> set xs")
    case True
    with assms(2) obtain g where "g \<in> A" "key x = Some g" by blast
    with assms(1) show ?thesis by (simp add: sum.delta)
  next
    case False
    then have z: "count (mset xs) x = 0" by (simp add: count_eq_zero_iff)
    show ?thesis unfolding z by simp
  qed
  finally show "count (\<Sum>g\<in>A. mset (filter (\<lambda>x. key x = Some g) xs)) x = count (mset xs) x" .
qed

lemma built_targets_have_geo:
  assumes "list_all2 (\<lambda>cg ct. newCGT las dg dw t cg = Inr (ct, None)) cgs ts"
  shows "\<forall>ct\<in>set ts. ClusterGatewayTarget.Geo ct \<noteq> None"
proof
  fix ct assume "ct \<in> set ts"
  with assms obtain cg where "newCGT las dg dw t cg = Inr (ct, None)"
    by (auto simp: list_all2_conv_all_nth in_set_conv_nth)
  then show "ClusterGatewayTarget.Geo ct \<noteq> None"
    unfolding NewClusterGatewayTarget_eq by (auto split: sum.splits)
qed

text \<open>
  Claim C6. For a \<open>GatewayTarget\<close> that \<open>NewGatewayTarget\<close> has built, with the targets
  \<open>ts\<close>, \<open>GroupTargetsByGeo\<close> returns a map \<open>m\<close> whose bucket for a geo code \<open>g\<close> is the
  subsequence of \<open>ts\<close>, in the order of \<open>ts\<close>, of the targets with the geo \<open>g\<close>, and that
  has no bucket for a geo code that no target has. So every target is in the bucket of
  its own geo and in no bucket of another key, and the buckets together hold the targets
  of \<open>ts\<close>, each as often as \<open>ts\<close> does.
\<close>

theorem group_by_geo_partition:
  assumes new: "NewGatewayTarget las dg dw gateway clusterGateways loadBalancing
                  = Inr (Some mcg, None)"
  shows "\<exists>ts m. ClusterGatewayTargets mcg = Some ts \<and> GroupTargetsByGeo mcg = Inr m \<and>
           (\<forall>g. m g = (if filter (\<lambda>t. GetGeo t = Inr g) ts = [] then None
                       else Some (filter (\<lambda>t. GetGeo t = Inr g) ts))) \<and>
           (\<forall>t\<in>set ts. \<exists>g b. GetGeo t = Inr g \<and> m g = Some b \<and> t \<in> set b \<and>
                          (\<forall>g' b'. m g' = Some b' \<and> t \<in> set b' \<longrightarrow> g' = g)) \<and>
           finite (dom m) \<and>
           (\<Sum>g\<in>dom m. mset (the (m g))) = mset ts"
proof -
  from NewGatewayTarget_ok [OF new] obtain ts where
    mcg: "mcg = \<lparr>Gateway = gateway, ClusterGatewayTargets = Some ts,
                 LoadBalancing = loadBalancing\<rparr>" and
    each: "list_all2 (\<lambda>cg ct. newCGT las dg dw
             \<lparr>Gateway = gateway, ClusterGatewayTargets = None, LoadBalancing = loadBalancing\<rparr>
             cg = Inr (ct, None)) clusterGateways ts"
    by auto
  have geo: "\<forall>t\<in>set ts. ClusterGatewayTarget.Geo t \<noteq> None"
    by (rule built_targets_have_geo [OF each])
  from GroupTargetsByGeo_loop_filter [OF geo, of Map.empty] obtain m where
    loop: "GroupTargetsByGeo_loop Map.empty ts = Inr m" and
    m: "\<And>g. m g = (if filter (\<lambda>t. GetGeo t = Inr g) ts = [] then None
                     else Some (filter (\<lambda>t. GetGeo t = Inr g) ts))"
    by auto
  from mcg loop have grp: "GroupTargetsByGeo mcg = Inr m"
    by (simp add: GroupTargetsByGeo_def)
  have one: "\<exists>g b. GetGeo t = Inr g \<and> m g = Some b \<and> t \<in> set b \<and>
                   (\<forall>g' b'. m g' = Some b' \<and> t \<in> set b' \<longrightarrow> g' = g)"
    if t: "t \<in> set ts" for t
  proof -
    from geo t obtain g where g: "GetGeo t = Inr g" by (auto simp: GetGeo_Inr_iff)
    with t have ne: "filter (\<lambda>t. GetGeo t = Inr g) ts \<noteq> []"
      by (auto simp: filter_empty_conv)
    have "g' = g" if "m g' = Some b'" "t \<in> set b'" for g' b'
    proof -
      from that(1) have "b' = filter (\<lambda>t. GetGeo t = Inr g') ts"
        by (simp add: m split: if_splits)
      with that(2) g show ?thesis by simp
    qed
    with g ne t show ?thesis by (auto simp: m)
  qed
  have dom: "dom m = (\<lambda>t. the (ClusterGatewayTarget.Geo t)) ` set ts"
  proof (rule set_eqI)
    fix g
    have "g \<in> dom m \<longleftrightarrow> (\<exists>t\<in>set ts. GetGeo t = Inr g)"
      by (auto simp: dom_def m filter_empty_conv)
    also have "\<dots> \<longleftrightarrow> g \<in> (\<lambda>t. the (ClusterGatewayTarget.Geo t)) ` set ts"
      using geo by (force simp: GetGeo_Inr_iff)
    finally show "g \<in> dom m \<longleftrightarrow> g \<in> (\<lambda>t. the (ClusterGatewayTarget.Geo t)) ` set ts" .
  qed
  then have fin: "finite (dom m)" by simp
  have "(\<Sum>g\<in>dom m. mset (the (m g)))
      = (\<Sum>g\<in>dom m. mset (filter (\<lambda>t. ClusterGatewayTarget.Geo t = Some g) ts))"
  proof (rule sum.cong [OF refl])
    fix g assume "g \<in> dom m"
    then have "m g = Some (filter (\<lambda>t. GetGeo t = Inr g) ts)"
      by (auto simp: m split: if_splits)
    then show "mset (the (m g)) = mset (filter (\<lambda>t. ClusterGatewayTarget.Geo t = Some g) ts)"
      by (simp add: GetGeo_Inr_iff)
  qed
  also have "\<dots> = mset ts"
  proof (rule sum_mset_filter_by_key [OF fin])
    show "\<forall>x\<in>set ts. \<exists>g\<in>dom m. ClusterGatewayTarget.Geo x = Some g"
      using geo unfolding dom by force
  qed
  finally have union: "(\<Sum>g\<in>dom m. mset (the (m g))) = mset ts" .
  from mcg grp m one fin union show ?thesis by auto
qed

theorem group_by_geo_partition_witness:
  "NewGatewayTarget matchLabelsAsSelector ''default'' 120 None
       [exampleA, exampleB, exampleC] (Some examplePolicy)
     = Inr (Some \<lparr>Gateway = None,
                  ClusterGatewayTargets =
                    Some [\<lparr>ClusterGateway = Some exampleA, Geo = Some ''US'',
                           Weight = Some 200\<rparr>,
                          \<lparr>ClusterGateway = Some exampleB, Geo = Some ''EU'',
                           Weight = Some 100\<rparr>,
                          \<lparr>ClusterGateway = Some exampleC, Geo = Some ''US'',
                           Weight = Some 100\<rparr>],
                  LoadBalancing = Some examplePolicy\<rparr>, None) \<and>
   (\<exists>m. GroupTargetsByGeo
           \<lparr>Gateway = None,
            ClusterGatewayTargets =
              Some [\<lparr>ClusterGateway = Some exampleA, Geo = Some ''US'', Weight = Some 200\<rparr>,
                    \<lparr>ClusterGateway = Some exampleB, Geo = Some ''EU'', Weight = Some 100\<rparr>,
                    \<lparr>ClusterGateway = Some exampleC, Geo = Some ''US'', Weight = Some 100\<rparr>],
            LoadBalancing = Some examplePolicy\<rparr> = Inr m \<and>
        m ''US'' = Some [\<lparr>ClusterGateway = Some exampleA, Geo = Some ''US'',
                          Weight = Some 200\<rparr>,
                         \<lparr>ClusterGateway = Some exampleC, Geo = Some ''US'',
                          Weight = Some 100\<rparr>] \<and>
        m ''EU'' = Some [\<lparr>ClusterGateway = Some exampleB, Geo = Some ''EU'',
                          Weight = Some 100\<rparr>] \<and>
        m ''default'' = None)"
  using group_by_geo_partition
    [of matchLabelsAsSelector "''default''" 120 None "[exampleA, exampleB, exampleC]"
        "Some examplePolicy"]
  by (simp add: op_defs example_defs exampleC_def GroupTargetsByGeo_def)

section \<open>Short codes\<close>

lemmas sample_defs = sampleSum224_def sampleEncodeBytes_def sampleToLower_def

text \<open>
  Claim C7. For a length \<open>l\<close> from 0 to the length of the encoded digest,
  \<open>ToBase36HashLen s l\<close> returns the first \<open>l\<close> characters of the lowercased base-36
  encoding of the SHA-224 digest of the bytes of \<open>s\<close>, a string of length \<open>l\<close>. The
  result is a function of \<open>s\<close> and \<open>l\<close> (and of the three library functions) alone, so
  two calls with the same arguments return the same string.
\<close>

theorem short_code_is_prefix_of_encoded_digest:
  assumes "0 \<le> l" and "l \<le> int (length (toLower (encodeBytes (sum224 (map of_char s)))))"
  shows "ToBase36HashLen sum224 encodeBytes toLower s l
           = Inr (take (nat l) (toLower (encodeBytes (sum224 (map of_char s))))) \<and>
         (\<exists>r. ToBase36HashLen sum224 encodeBytes toLower s l = Inr r \<and> int (length r) = l) \<and>
         (\<forall>s' l'. s' = s \<and> l' = l \<longrightarrow>
            ToBase36HashLen sum224 encodeBytes toLower s' l'
              = ToBase36HashLen sum224 encodeBytes toLower s l)"
  using assms by (simp add: ToBase36HashLen_def ToBase36Hash_def)

theorem short_code_is_prefix_of_encoded_digest_witness:
  "(0::int) \<le> 7 \<and>
   7 \<le> int (length (sampleToLower (sampleEncodeBytes
                 (sampleSum224 (map of_char ''myname''))))) \<and>
   ToBase36HashLen sampleSum224 sampleEncodeBytes sampleToLower ''myname'' 7
     = Inr ''0z0z0z0''"
  using short_code_is_prefix_of_encoded_digest
    [of 7 sampleToLower sampleEncodeBytes sampleSum224 "''myname''"]
  by (simp add: ToBase36HashLen_def ToBase36Hash_def sample_defs)

text \<open>
  Claim C8. With \<open>code\<close> the short code of length 7 that \<open>ToBase36HashLen\<close> returns for
  the namespace, a hyphen and the name of a cluster gateway, \<open>GetShortCode\<close> returns
  the cluster name, a hyphen and \<open>code\<close>, a string of 7 characters: for every target
  that holds the cluster gateway, and so for every target that
  \<open>NewClusterGatewayTarget\<close> constructs from it.
\<close>

theorem cluster_short_code_format:
  assumes code: "ToBase36HashLen sum224 encodeBytes toLower
                   (Namespace cg @ ''-'' @ Name cg) 7 = Inr code"
  shows "length code = 7 \<and>
         (ClusterGateway t = Some cg \<longrightarrow>
            GetShortCode sum224 encodeBytes toLower t = Inr (ClusterName cg @ ''-'' @ code)) \<and>
         (\<forall>las dg g w cws t'.
            NewClusterGatewayTarget las dg cg g w cws = Inr (t', None) \<longrightarrow>
            GetShortCode sum224 encodeBytes toLower t' = Inr (ClusterName cg @ ''-'' @ code))"
proof -
  from code have len: "length code = 7"
    by (auto simp: ToBase36HashLen_def Let_def split: if_splits)
  have held: "GetShortCode sum224 encodeBytes toLower t = Inr (ClusterName cg @ ''-'' @ code)"
    if "ClusterGateway t = Some cg" for t
    using that code by (simp add: GetShortCode_def)
  have built: "GetShortCode sum224 encodeBytes toLower t' = Inr (ClusterName cg @ ''-'' @ code)"
    if "NewClusterGatewayTarget las dg cg g w cws = Inr (t', None)" for las dg g w cws t'
    by (rule held) (rule NewClusterGatewayTarget_ok_cg [OF that])
  from len held built show ?thesis by blast
qed

theorem cluster_short_code_format_witness:
  "ToBase36HashLen sampleSum224 sampleEncodeBytes sampleToLower
       (Namespace exampleA @ ''-'' @ Name exampleA) 7 = Inr ''0z0z0z0'' \<and>
   NewClusterGatewayTarget matchLabelsAsSelector ''default'' exampleA ''default'' 120 []
     = Inr (\<lparr>ClusterGateway = Some exampleA, Geo = Some ''default'', Weight = Some 120\<rparr>,
            None) \<and>
   GetShortCode sampleSum224 sampleEncodeBytes sampleToLower
       \<lparr>ClusterGateway = Some exampleA, Geo = Some ''default'', Weight = Some 120\<rparr>
     = Inr ''cluster-a-0z0z0z0''"
  using cluster_short_code_format
    [of sampleSum224 sampleEncodeBytes sampleToLower exampleA "''0z0z0z0''"
        "\<lparr>ClusterGateway = Some exampleA, Geo = Some ''default'', Weight = Some 120\<rparr>"]
  by (simp add: GetShortCode_def ToBase36HashLen_def ToBase36Hash_def sample_defs op_defs
      example_defs)

section \<open>Sharing between the inputs and the targets\<close>

lemmas store_defs = NewGatewayTarget_st_def NewClusterGatewayTarget_st_def view_def load_def
  readLabels_def assignLabel_def assignClusterName_def

lemmas example_store_defs = exampleA_st_def exampleStore_def exampleStore1_def
  exampleStore2_def exampleTarget_st_def

lemma load_alloc [simp]:
  "load (s\<lparr>structs := st, nextAddr := n\<rparr>) = load s"
  by (rule ext) (simp add: load_def readLabels_def split: option.splits)

lemma NewClusterGatewayTarget_st_eq:
  "NewClusterGatewayTarget_st las dg cg g w cws s =
     (case NewClusterGatewayTarget las dg (load s cg) g w cws of
        Inl e \<Rightarrow> Inl e
      | Inr (t, Some err) \<Rightarrow>
          Inr (s\<lparr>structs := (structs s)(nextAddr s \<mapsto> cg), nextAddr := Suc (nextAddr s)\<rparr>,
               \<lparr>ClusterGateway_st = None, Geo_st = None, Weight_st = None\<rparr>, Some err)
      | Inr (t, None) \<Rightarrow>
          Inr (s\<lparr>structs := (structs s)(nextAddr s \<mapsto> cg), nextAddr := Suc (nextAddr s)\<rparr>,
               \<lparr>ClusterGateway_st = Some (nextAddr s), Geo_st = ClusterGatewayTarget.Geo t,
                Weight_st = ClusterGatewayTarget.Weight t\<rparr>, None))"
  by (simp add: NewClusterGatewayTarget_st_def NewClusterGatewayTarget_def view_def Let_def
      split: sum.splits prod.splits option.splits)

lemma NewClusterGatewayTarget_st_store:
  assumes "NewClusterGatewayTarget_st las dg cg g w cws s = Inr (s1, cgt, err)"
  shows "s1 = s\<lparr>structs := (structs s)(nextAddr s \<mapsto> cg), nextAddr := Suc (nextAddr s)\<rparr>"
    and "err = None \<Longrightarrow> ClusterGateway_st cgt = Some (nextAddr s)"
  using assms unfolding NewClusterGatewayTarget_st_eq
  by (auto split: sum.splits prod.splits option.splits)

lemma loop_st_frame:
  assumes "setClusterGatewayTargets_loop_st las dg dw t acc as s = Inr (s', r)"
  shows "labelMaps s' = labelMaps s \<and> nextAddr s \<le> nextAddr s' \<and>
         (\<forall>a<nextAddr s. structs s' a = structs s a)"
  using assms
proof (induction as arbitrary: acc s)
  case Nil
  then show ?case by simp
next
  case (Cons a as)
  from Cons.prems obtain cg where cg: "structs s a = Some cg"
    by (auto split: option.splits)
  let ?s1 = "s\<lparr>structs := (structs s)(nextAddr s \<mapsto> cg), nextAddr := Suc (nextAddr s)\<rparr>"
  from Cons.prems cg obtain s1 cgt err where
    new: "NewClusterGatewayTarget_st las dg cg (GetDefaultGeo dg t) (GetDefaultWeight dw t)
            (customWeightsOf t) s = Inr (s1, cgt, err)"
    by (auto split: sum.splits)
  from NewClusterGatewayTarget_st_store(1) [OF new] have s1: "s1 = ?s1" .
  show ?case
  proof (cases err)
    case (Some e)
    with Cons.prems cg new have "s' = s1" by simp
    with s1 show ?thesis by simp
  next
    case None
    with Cons.prems cg new have
      "setClusterGatewayTargets_loop_st las dg dw t (acc @ [cgt]) as s1 = Inr (s', r)"
      by simp
    from Cons.IH [OF this] s1 show ?thesis by auto
  qed
qed

lemma loop_st_targets:
  assumes "setClusterGatewayTargets_loop_st las dg dw t acc as s = Inr (s', Inr ts)"
    and "\<forall>a\<in>set as. a < nextAddr s"
  shows "\<exists>new. ts = acc @ new \<and>
           map ClusterGateway_st new = map Some [nextAddr s ..< nextAddr s + length as] \<and>
           (\<forall>i<length as. structs s' (nextAddr s + i) = structs s (as ! i))"
  using assms
proof (induction as arbitrary: acc s)
  case Nil
  then show ?case by simp
next
  case (Cons a as)
  from Cons.prems(1) obtain cg where cg: "structs s a = Some cg"
    by (auto split: option.splits)
  let ?n = "nextAddr s"
  let ?s1 = "s\<lparr>structs := (structs s)(?n \<mapsto> cg), nextAddr := Suc ?n\<rparr>"
  from Cons.prems(1) cg obtain s1 cgt where
    new: "NewClusterGatewayTarget_st las dg cg (GetDefaultGeo dg t) (GetDefaultWeight dw t)
            (customWeightsOf t) s = Inr (s1, cgt, None)" and
    rest: "setClusterGatewayTargets_loop_st las dg dw t (acc @ [cgt]) as s1 = Inr (s', Inr ts)"
    by (auto split: sum.splits option.splits)
  from NewClusterGatewayTarget_st_store [OF new] have s1: "s1 = ?s1"
    and ptr: "ClusterGateway_st cgt = Some ?n" by simp_all
  from Cons.prems(2) s1 have below: "\<forall>a\<in>set as. a < nextAddr s1" by auto
  from Cons.IH [OF rest below] obtain new' where
    ts: "ts = (acc @ [cgt]) @ new'" and
    ptrs: "map ClusterGateway_st new' = map Some [nextAddr s1 ..< nextAddr s1 + length as]" and
    cells: "\<forall>i<length as. structs s' (nextAddr s1 + i) = structs s1 (as ! i)"
    by blast
  from loop_st_frame [OF rest] s1 have here: "structs s' ?n = Some cg" by simp
  have len: "?n + length (a # as) = Suc ?n + length as" by simp
  have upt: "[?n ..< ?n + length (a # as)] = ?n # [Suc ?n ..< Suc ?n + length as]"
    unfolding len by (rule upt_conv_Cons) simp
  have "map ClusterGateway_st (cgt # new') = map Some [?n ..< ?n + length (a # as)]"
    unfolding upt using ptr ptrs s1 by simp
  moreover have "structs s' (?n + i) = structs s ((a # as) ! i)" if "i < length (a # as)" for i
  proof (cases i)
    case 0
    with here cg show ?thesis by simp
  next
    case (Suc j)
    with that have j: "j < length as" by simp
    with Cons.prems(2) have "as ! j \<noteq> ?n" by (metis less_irrefl list.set_intros(2) nth_mem)
    with cells j s1 Suc show ?thesis by simp
  qed
  ultimately have "ts = acc @ (cgt # new') \<and>
    map ClusterGateway_st (cgt # new') = map Some [?n ..< ?n + length (a # as)] \<and>
    (\<forall>i<length (a # as). structs s' (?n + i) = structs s ((a # as) ! i))"
    using ts by simp
  then show ?case by blast
qed

lemma view_alloc:
  assumes "\<forall>p. ClusterGateway_st c = Some p \<longrightarrow> p \<noteq> n"
  shows "view (s\<lparr>structs := (structs s)(n \<mapsto> cg), nextAddr := m\<rparr>) c = view s c"
  using assms by (simp add: view_def split: option.splits)

lemma loop_st_refines:
  assumes "setClusterGatewayTargets_loop_st las dg dw t acc as s = Inr (s', r)"
    and "\<forall>a\<in>set as. a < nextAddr s"
    and "\<forall>c\<in>set acc. \<forall>p. ClusterGateway_st c = Some p \<longrightarrow> p < nextAddr s"
  shows "setClusterGatewayTargets_loop las dg dw t (map (view s) acc)
           (map (\<lambda>a. load s (the (structs s a))) as)
         = Inr (case r of Inl e \<Rightarrow> Inl e | Inr ts \<Rightarrow> Inr (map (view s') ts))"
  using assms
proof (induction as arbitrary: acc s)
  case Nil
  then show ?case by auto
next
  case (Cons a as)
  from Cons.prems(1) obtain cg where cg: "structs s a = Some cg"
    by (auto split: option.splits)
  let ?n = "nextAddr s"
  let ?s1 = "s\<lparr>structs := (structs s)(?n \<mapsto> cg), nextAddr := Suc ?n\<rparr>"
  from Cons.prems(1) cg obtain s1 cgt err where
    new: "NewClusterGatewayTarget_st las dg cg (GetDefaultGeo dg t) (GetDefaultWeight dw t)
            (customWeightsOf t) s = Inr (s1, cgt, err)"
    by (auto split: sum.splits)
  from NewClusterGatewayTarget_st_store(1) [OF new] have s1: "s1 = ?s1" .
  from new obtain tp where
    pure: "newCGT las dg dw t (load s cg) = Inr (tp, err)" and
    cgt: "err = None \<Longrightarrow>
            cgt = \<lparr>ClusterGateway_st = Some ?n, Geo_st = ClusterGatewayTarget.Geo tp,
                   Weight_st = ClusterGatewayTarget.Weight tp\<rparr>"
    unfolding NewClusterGatewayTarget_st_eq
    by (auto split: sum.splits prod.splits option.splits)
  show ?case
  proof (cases err)
    case (Some e)
    with Cons.prems(1) cg new have "r = Inl e" by simp
    with Some pure cg show ?thesis by simp
  next
    case None
    with Cons.prems(1) cg new have
      rest: "setClusterGatewayTargets_loop_st las dg dw t (acc @ [cgt]) as s1 = Inr (s', r)"
      by simp
    from Cons.prems(2) s1 have below: "\<forall>a\<in>set as. a < nextAddr s1" by auto
    from Cons.prems(3) s1 cgt [OF None] have accs:
      "\<forall>c\<in>set (acc @ [cgt]). \<forall>p. ClusterGateway_st c = Some p \<longrightarrow> p < nextAddr s1"
      by auto
    have vcgt: "view s1 cgt = tp"
      using cgt [OF None] NewClusterGatewayTarget_ok_cg [OF pure [unfolded None]] s1
      by (simp add: view_def)
    have vacc: "map (view s1) acc = map (view s) acc"
    proof (rule map_cong [OF refl])
      fix c assume "c \<in> set acc"
      with Cons.prems(3) have "\<forall>p. ClusterGateway_st c = Some p \<longrightarrow> p \<noteq> ?n" by auto
      then show "view s1 c = view s c" unfolding s1 by (rule view_alloc)
    qed
    have vas: "map (\<lambda>a. load s1 (the (structs s1 a))) as
             = map (\<lambda>a. load s (the (structs s a))) as"
    proof (rule map_cong [OF refl])
      fix b assume "b \<in> set as"
      with Cons.prems(2) have "b \<noteq> ?n" by auto
      then show "load s1 (the (structs s1 b)) = load s (the (structs s b))"
        unfolding s1 by simp
    qed
    from Cons.IH [OF rest below accs] vcgt vacc vas pure None cg show ?thesis by simp
  qed
qed

lemma NewGatewayTarget_st_refines:
  assumes "NewGatewayTarget_st las dg dw gateway as loadBalancing s = Inr (s', r, err)"
    and "\<forall>a\<in>set as. a < nextAddr s"
  shows "NewGatewayTarget las dg dw gateway (map (\<lambda>a. load s (the (structs s a))) as)
           loadBalancing
         = Inr (Some \<lparr>Gateway = gateway,
                      ClusterGatewayTargets = map_option (map (view s')) r,
                      LoadBalancing = loadBalancing\<rparr>, err)"
proof -
  let ?mcg = "\<lparr>Gateway = gateway, ClusterGatewayTargets = None,
               LoadBalancing = loadBalancing\<rparr>"
  from assms(1) obtain res where
    loop: "setClusterGatewayTargets_loop_st las dg dw ?mcg [] as s = Inr (s', res)" and
    res: "(case res of Inl e \<Rightarrow> r = None \<and> err = Some e | Inr ts \<Rightarrow> r = Some ts \<and> err = None)"
    by (auto simp: NewGatewayTarget_st_def Let_def split: sum.splits prod.splits)
  from loop_st_refines [OF loop assms(2)] res show ?thesis
    by (cases res) (simp_all add: NewGatewayTarget_eq)
qed

text \<open>
  Claim C10, as stated, fails in its last part: the copy of the struct that a target
  points to holds the address of the same label map as the caller's struct, so an
  assignment to a label through the target is read through the caller's record. The
  caller's element at address 0 is the same struct before and after, and its label
  \<open>tier\<close> has changed.
\<close>

theorem label_map_alias_counterexample:
  "NewGatewayTarget_st matchLabelsAsSelector ''default'' 120 None [0] None exampleStore
     = Inr (exampleStore1, Some [exampleTarget_st], None) \<and>
   assignLabel exampleTarget_st ''tier'' ''basic'' exampleStore1 = Inr exampleStore2 \<and>
   structs exampleStore 0 = Some exampleA_st \<and>
   Labels (load exampleStore exampleA_st) ''tier'' = Some ''premium'' \<and>
   structs exampleStore2 0 = Some exampleA_st \<and>
   Labels (load exampleStore2 exampleA_st) ''tier'' = Some ''basic''"
  by (simp add: store_defs example_store_defs op_defs example_defs)

text \<open>
  Claim C10, amended. \<open>NewGatewayTarget\<close> (and with it \<open>NewClusterGatewayTarget\<close>) does
  not change its inputs: the label maps and every struct cell that existed before, the
  elements of the caller's slice among them, are as they were. The i-th target points to
  a cell at a fresh address, which is not an element of the caller's slice and which
  holds a copy of the i-th element; the copy holds what the element holds, the address of
  its label map included. A later assignment to a field of the struct a target points to
  changes neither the cells that existed before nor a label map; a later assignment to a
  label through a target is read through the element of the caller's slice.
\<close>

theorem construction_copies_structs_and_shares_label_maps:
  assumes slice: "\<forall>a\<in>set clusterGateways. a < nextAddr s"
    and new: "NewGatewayTarget_st las dg dw gateway clusterGateways loadBalancing s
                = Inr (s', r, err)"
  shows "labelMaps s' = labelMaps s \<and>
         (\<forall>a<nextAddr s. structs s' a = structs s a) \<and>
         (\<forall>ts. r = Some ts \<longrightarrow>
            length ts = length clusterGateways \<and>
            (\<forall>i<length clusterGateways.
               ClusterGateway_st (ts ! i) = Some (nextAddr s + i) \<and>
               nextAddr s + i \<notin> set clusterGateways \<and>
               structs s' (nextAddr s + i) = structs s (clusterGateways ! i) \<and>
               (\<forall>x s''. assignClusterName (ts ! i) x s' = Inr s'' \<longrightarrow>
                  labelMaps s'' = labelMaps s \<and>
                  (\<forall>a<nextAddr s. structs s'' a = structs s a)) \<and>
               (\<forall>k v s''. assignLabel (ts ! i) k v s' = Inr s'' \<longrightarrow>
                  (\<exists>cg. structs s (clusterGateways ! i) = Some cg \<and>
                        structs s'' (clusterGateways ! i) = Some cg \<and>
                        readLabels s'' (Labels_st cg) k = Some v))))"
proof -
  let ?mcg = "\<lparr>Gateway = gateway, ClusterGatewayTargets = None,
               LoadBalancing = loadBalancing\<rparr>"
  from new obtain res where
    loop: "setClusterGatewayTargets_loop_st las dg dw ?mcg [] clusterGateways s
             = Inr (s', res)" and
    res: "\<And>ts. r = Some ts \<Longrightarrow> res = Inr ts"
    by (auto simp: NewGatewayTarget_st_def Let_def split: sum.splits prod.splits)
  from loop_st_frame [OF loop] have maps: "labelMaps s' = labelMaps s"
    and cells: "\<forall>a<nextAddr s. structs s' a = structs s a" by simp_all
  have targets: "length ts = length clusterGateways \<and>
            (\<forall>i<length clusterGateways.
               ClusterGateway_st (ts ! i) = Some (nextAddr s + i) \<and>
               nextAddr s + i \<notin> set clusterGateways \<and>
               structs s' (nextAddr s + i) = structs s (clusterGateways ! i) \<and>
               (\<forall>x s''. assignClusterName (ts ! i) x s' = Inr s'' \<longrightarrow>
                  labelMaps s'' = labelMaps s \<and>
                  (\<forall>a<nextAddr s. structs s'' a = structs s a)) \<and>
               (\<forall>k v s''. assignLabel (ts ! i) k v s' = Inr s'' \<longrightarrow>
                  (\<exists>cg. structs s (clusterGateways ! i) = Some cg \<and>
                        structs s'' (clusterGateways ! i) = Some cg \<and>
                        readLabels s'' (Labels_st cg) k = Some v)))"
    if r: "r = Some ts" for ts
  proof -
    from loop res [OF r] have
      "setClusterGatewayTargets_loop_st las dg dw ?mcg [] clusterGateways s = Inr (s', Inr ts)"
      by simp
    from loop_st_targets [OF this slice] have
      ptrs: "map ClusterGateway_st ts
               = map Some [nextAddr s ..< nextAddr s + length clusterGateways]" and
      copy: "\<forall>i<length clusterGateways.
               structs s' (nextAddr s + i) = structs s (clusterGateways ! i)"
      by simp_all
    from ptrs have "length (map ClusterGateway_st ts)
        = length (map Some [nextAddr s ..< nextAddr s + length clusterGateways])" by simp
    then have len: "length ts = length clusterGateways" by simp
    have ptr: "ClusterGateway_st (ts ! i) = Some (nextAddr s + i)"
      if "i < length clusterGateways" for i
    proof -
      from ptrs have "map ClusterGateway_st ts ! i
          = map Some [nextAddr s ..< nextAddr s + length clusterGateways] ! i" by simp
      with that len show ?thesis by simp
    qed
    have fresh: "nextAddr s + i \<notin> set clusterGateways" for i
      using slice by auto
    have assign: "labelMaps s'' = labelMaps s \<and> (\<forall>a<nextAddr s. structs s'' a = structs s a)"
      if i: "i < length clusterGateways"
        and a: "assignClusterName (ts ! i) x s' = Inr s''" for i x s''
    proof -
      from a ptr [OF i] obtain cg where
        "s'' = s'\<lparr>structs := (structs s')(nextAddr s + i \<mapsto> cg\<lparr>ClusterName_st := x\<rparr>)\<rparr>"
        by (auto simp: assignClusterName_def split: option.splits)
      with maps cells show ?thesis by simp
    qed
    have label: "\<exists>cg. structs s (clusterGateways ! i) = Some cg \<and>
                     structs s'' (clusterGateways ! i) = Some cg \<and>
                     readLabels s'' (Labels_st cg) k = Some v"
      if i: "i < length clusterGateways"
        and a: "assignLabel (ts ! i) k v s' = Inr s''" for i k v s''
    proof -
      from a ptr [OF i] obtain cg m where
        cg: "structs s' (nextAddr s + i) = Some cg" and m: "Labels_st cg = Some m" and
        s'': "s'' = s'\<lparr>labelMaps := (labelMaps s')(m \<mapsto> (readLabels s' (Some m))(k \<mapsto> v))\<rparr>"
        by (auto simp: assignLabel_def split: option.splits)
      from copy i cg have before: "structs s (clusterGateways ! i) = Some cg" by simp
      from slice i have "clusterGateways ! i < nextAddr s" by simp
      with cells before s'' have after: "structs s'' (clusterGateways ! i) = Some cg" by simp
      from m s'' have "readLabels s'' (Labels_st cg) k = Some v"
        by (simp add: readLabels_def)
      with before after show ?thesis by blast
    qed
    from len ptr fresh copy assign label show ?thesis by blast
  qed
  from maps cells targets show ?thesis by blast
qed

theorem construction_copies_structs_and_shares_label_maps_witness:
  "(0::nat) < nextAddr exampleStore \<and>
   NewGatewayTarget_st matchLabelsAsSelector ''default'' 120 None [0] None exampleStore
     = Inr (exampleStore1, Some [exampleTarget_st], None) \<and>
   labelMaps exampleStore1 = labelMaps exampleStore \<and>
   structs exampleStore1 0 = structs exampleStore 0 \<and>
   ClusterGateway_st exampleTarget_st = Some 1 \<and>
   structs exampleStore1 1 = structs exampleStore 0 \<and>
   Labels_st (the (structs exampleStore1 1)) = Labels_st (the (structs exampleStore 0))"
  using construction_copies_structs_and_shares_label_maps
    [of "[0]" exampleStore matchLabelsAsSelector "''default''" 120 None None
        exampleStore1 "Some [exampleTarget_st]" None]
  by (simp add: store_defs example_store_defs op_defs example_defs)


end
